theory Spec2Isabelle
  imports Main "HOL-Library.Char_ord" "HOL-Library.List_Lexorder"
begin

section \<open>Python values, exceptions and text\<close>

text \<open>
  The two scripts of the repository are embedded as HOL functions. Python values whose
  dynamic type matters are values of \<open>pyval\<close>; the float type is a parameter \<open>'f\<close>,
  since no property below depends on how floats are represented. An exception is a value
  of \<open>exc\<close> (only subclasses of \<open>Exception\<close> occur), and \<open>sys.exit\<close> is kept apart
  from exceptions in \<open>outcome\<close>. Text written by \<open>print\<close> is collected as a list with
  one entry for each call, the entry being the text written with its line end (a call
  with \<open>end=''\<close> writes none).
  Strings are lists of code points below 256. \<open>assert\<close> statements are executed
  (the interpreter is started without \<open>-O\<close>, as the shebang line and the test runner
  start it).
\<close>

datatype exc =
    AssertionError
  | NameError string
  | AttributeError
  | TypeError
  | ValueError
  | SyntaxError
  | ArgumentTypeError string
  | ImportError
  | OSError
  | OtherError string

datatype 'f pyval =
    PNone
  | PBool bool
  | PInt int
  | PFloat 'f
  | PStr string
  | PList "'f pyval list"
  | PTuple "'f pyval list"
  | PDict "('f pyval \<times> 'f pyval) list"

datatype 'a outcome =
    Returned 'a
  | Raised exc
  | SysExit int

definition nl :: string where
  "nl = [CHR 0x0A]"

definition quote :: string where
  "quote = [CHR 0x27]"

text \<open>\<open>print(s)\<close> for one string argument: the text and the line end.\<close>

definition print :: "string \<Rightarrow> string" where
  "print s = s @ nl"

text \<open>\<open>s in text\<close> for two strings: \<open>s\<close> occurs as a contiguous part of \<open>text\<close>.\<close>

fun contains :: "string \<Rightarrow> string \<Rightarrow> bool" where
  "contains [] s = (s = [])"
| "contains (c # cs) s = (take (length s) (c # cs) = s \<or> contains cs s)"

text \<open>\<open>'%d' % n\<close>: the decimal digits of an integer, with a sign when negative.\<close>

fun str_nat :: "nat \<Rightarrow> string" where
  "str_nat n =
     (if n < 10 then [char_of (48 + n)]
      else str_nat (n div 10) @ [char_of (48 + n mod 10)])"

definition str_int :: "int \<Rightarrow> string" where
  "str_int i = (if i < 0 then CHR ''-'' # str_nat (nat (- i)) else str_nat (nat i))"

text \<open>
  \<open>str.strip()\<close> removes white space at both ends. Below 256 the white space of
  Python is the code points 9 to 13, 28 to 32, 133 and 160.
\<close>

definition is_space :: "char \<Rightarrow> bool" where
  "is_space c =
     (let n = (of_char c :: nat)
      in (9 \<le> n \<and> n \<le> 13) \<or> (28 \<le> n \<and> n \<le> 32) \<or> n = 133 \<or> n = 160)"

definition strip :: "string \<Rightarrow> string" where
  "strip s = rev (dropWhile is_space (rev (dropWhile is_space s)))"

section \<open>The test runner \<open>check_mkpy3_v5.py\<close>\<close>

text \<open>
  \<open>subprocess.run(['python3', name], capture_output=True)\<close> is a parameter \<open>run\<close>
  of the model: it either raises (no interpreter to start, say) or gives a completed
  process with its return code and its captured output. The counters, the text printed
  and the list of the commands started so far make the state of the runner.
\<close>

record completed_process =
  returncode :: int
  captured_stdout :: string
  captured_stderr :: string

record runner_state =
  good :: int
  bad :: int
  printed :: "string list"
  launched :: "string list list"

definition CEND :: string where
  "CEND = CHR 0x1B # ''[0m''"

definition CRED :: string where
  "CRED = CHR 0x1B # ''[31m''"

text \<open>The body of the \<open>for\<close> loop, for one pair \<open>(k, name)\<close> of \<open>enumerate\<close>.\<close>

definition loop_body ::
  "(string list \<Rightarrow> exc + completed_process) \<Rightarrow> nat \<times> string \<Rightarrow> runner_state
     \<Rightarrow> exc + runner_state" where
  "loop_body run kn st =
     (let k = fst kn; name = snd kn;
          st1 = st\<lparr>printed := printed st @ [''['' @ str_nat k @ ''] '' @ strip name @ '' : '']\<rparr>;
          st2 = st1\<lparr>launched := launched st1 @ [[''python3'', name]]\<rparr>
      in case run [''python3'', name] of
           Inl e \<Rightarrow> Inl e
         | Inr result \<Rightarrow>
             (let returncode = returncode result
              in if returncode \<noteq> 0
                 then Inr (st2\<lparr>bad := bad st2 + 1,
                            printed := printed st2 @
                              [print (CRED @ ''***** ERROR FOUND *****'' @ CEND), print []]\<rparr>)
                 else Inr (st2\<lparr>good := good st2 + 1,
                            printed := printed st2 @ [print ''OK'']\<rparr>)))"

text \<open>The loop: the body for each pair in turn; an exception ends it.\<close>

fun for_loop ::
  "(string list \<Rightarrow> exc + completed_process) \<Rightarrow> (nat \<times> string) list \<Rightarrow> runner_state
     \<Rightarrow> exc + runner_state" where
  "for_loop run [] st = Inr st"
| "for_loop run (kn # kns) st =
     (case loop_body run kn st of
        Inl e \<Rightarrow> Inl e
      | Inr st' \<Rightarrow> for_loop run kns st')"

text \<open>
  The script. \<open>cwd\<close> is what \<open>os.getcwd()\<close> gives and \<open>globbed\<close> what
  \<open>glob.glob('./mkpy3*.py')\<close> gives.
\<close>

definition runner_init :: "string \<Rightarrow> nat \<Rightarrow> runner_state" where
  "runner_init cwd sz =
     \<lparr>good = 0, bad = 0,
      printed = [print (cwd @ '' '' @ '' =$PWD''), print [],
                 print (str_nat sz @ '' '' @ ''files to check''), print []],
      launched = []\<rparr>"

definition runner_summary :: "nat \<Rightarrow> runner_state \<Rightarrow> runner_state" where
  "runner_summary sz st =
     (let st1 = st\<lparr>printed := printed st @ [print []]\<rparr>;
          st2 = (if good st1 = int sz
                 then st1\<lparr>printed := printed st1 @
                        [print (nl @ ''All '' @ str_int (good st1) @ '' files PASS  :-)'')]\<rparr>
                 else st1\<lparr>printed := printed st1 @
                        [print (str_int (bad st1) @ '' of '' @ str_nat sz @ '' files FAIL  8=X'')]\<rparr>)
      in st2\<lparr>printed := printed st2 @ [print []]\<rparr>)"

definition check_mkpy3 ::
  "string \<Rightarrow> string list \<Rightarrow> (string list \<Rightarrow> exc + completed_process)
     \<Rightarrow> exc + runner_state" where
  "check_mkpy3 cwd globbed run =
     (let filel = sort globbed;
          sz = length filel
      in case for_loop run (enumerate 1 filel) (runner_init cwd sz) of
           Inl e \<Rightarrow> Inl e
         | Inr st \<Rightarrow> Inr (runner_summary sz st))"

text \<open>
  The exit code of the child process started for a script, when the process could be
  started at all.
\<close>

definition exit_code :: "(string list \<Rightarrow> exc + completed_process) \<Rightarrow> string \<Rightarrow> int option" where
  "exit_code run name =
     (case run [''python3'', name] of Inl e \<Rightarrow> None | Inr result \<Rightarrow> Some (returncode result))"

section \<open>The overlay script \<open>mkpy3_tess_tpf_overlay_v3.py\<close>\<close>

subsection \<open>\<open>str2bool\<close>\<close>

text \<open>
  \<open>str.lower()\<close> on code points below 256: the letters A to Z and the capital
  letters 192 to 222 (215, the multiplication sign, apart) move up by 32.
\<close>

definition lower_char :: "char \<Rightarrow> char" where
  "lower_char c =
     (let n = (of_char c :: nat)
      in if (65 \<le> n \<and> n \<le> 90) \<or> (192 \<le> n \<and> n \<le> 222 \<and> n \<noteq> 215)
         then char_of (n + 32) else c)"

definition lower :: "string \<Rightarrow> string" where
  "lower v = map lower_char v"

definition str2bool :: "string \<Rightarrow> exc + 'f pyval" where
  "str2bool v =
     (if lower v \<in> set [''yes'', ''true'', ''t'', ''y'', ''1''] then Inr (PBool True)
      else if lower v \<in> set [''no'', ''false'', ''f'', ''n'', ''0''] then Inr (PBool False)
      else Inl (ArgumentTypeError ''Boolean value expected.''))"

subsection \<open>\<open>check_file_exists\<close>\<close>

text \<open>
  The function uses the names \<open>os\<close> and \<open>sys\<close>, which it does not bind itself: they
  are looked up in the globals of the module when the line that uses them runs. The
  module binds \<open>sys\<close> in line 17 and unbinds it in line 34 (\<open>del sys\<close>); the block
  under \<open>if (__name__ == '__main__')\<close> binds both, in lines 235 and 236, before anything
  calls the function. So the globals are a parameter: the set of the names bound.
  \<open>main_globals\<close> is that set while the script runs, \<open>import_globals\<close> that set after
  \<open>import mkpy3_tess_tpf_overlay_v3\<close> in another module.

  What the call does to the world is a list of events: a text printed, or a question to
  the file system. \<open>isfile\<close> is \<open>os.path.isfile\<close> on the file system of the run.
\<close>

datatype event =
    Print string
  | IsFile string

definition import_globals :: "string set" where
  "import_globals =
     {''__version__'', ''pyver'', ''mkpy3_tess_tpf_overlay_v3'', ''str2bool'',
      ''check_file_exists''}"

definition main_globals :: "string set" where
  "main_globals = import_globals \<union> {''os'', ''sys'', ''ntpath'', ''argparse'', ''ast'', ''lk''}"

definition msg :: string where
  "msg = ''Requested output file already exists (overwrite=False):'' @ nl"

definition check_file_exists ::
  "string set \<Rightarrow> (string \<Rightarrow> bool) \<Rightarrow> 'f pyval \<Rightarrow> 'f pyval \<Rightarrow> unit outcome \<times> event list" where
  "check_file_exists globals isfile filename overwrite =
     (case filename of
        PStr fname \<Rightarrow>
          (case overwrite of
             PBool ow \<Rightarrow>
               (if \<not> ow then
                  (if ''os'' \<notin> globals then (Raised (NameError ''os''), [])
                   else if isfile fname then
                     (if ''sys'' \<notin> globals then Raised (NameError ''sys'') else SysExit 1,
                      [IsFile fname,
                       Print (print (nl @ ''***** ERROR *****'' @ nl @ nl @ msg)),
                       Print (print (''new_filename='' @ quote @ fname @ quote @ nl))])
                   else (Returned (), [IsFile fname]))
                else (Returned (), []))
           | _ \<Rightarrow> (Raised AssertionError, []))
      | _ \<Rightarrow> (Raised AssertionError, []))"

text \<open>The text a run printed, in order.\<close>

fun printed_text :: "event list \<Rightarrow> string list" where
  "printed_text [] = []"
| "printed_text (Print s # es) = s # printed_text es"
| "printed_text (IsFile f # es) = printed_text es"

text \<open>
  The exit status of the process for the way the script ended: a script that runs to
  its end gives 0, \<open>sys.exit(n)\<close> gives \<open>n\<close>, and an exception nobody caught makes
  the interpreter print a traceback and give 1.
\<close>

fun exit_status :: "'a outcome \<Rightarrow> int" where
  "exit_status (Returned x) = 0"
| "exit_status (SysExit n) = n"
| "exit_status (Raised e) = 1"

subsection \<open>The command line\<close>

text \<open>
  What the interpreter and its libraries compute is a parameter of the model: the value
  of a float literal of the source text, \<open>float(s)\<close>, the product of two floats,
  \<open>int(s)\<close>, \<open>ast.literal_eval(s)\<close>, \<open>str(x)\<close>, \<open>ntpath.basename\<close>,
  \<open>os.path.dirname\<close>, and the test by which \<open>argparse\<close> takes the word after an
  option for the value of the option and not for an option itself (\<open>value_word\<close>).
\<close>

record 'f pylib =
  float_literal :: "string \<Rightarrow> 'f"
  float_of_str :: "string \<Rightarrow> exc + 'f"
  float_mul :: "'f \<Rightarrow> 'f \<Rightarrow> 'f"
  int_of_str :: "string \<Rightarrow> exc + int"
  literal_eval :: "string \<Rightarrow> exc + 'f pyval"
  str_of :: "'f pyval \<Rightarrow> string"
  basename :: "string \<Rightarrow> string"
  dirname :: "string \<Rightarrow> string"
  value_word :: "string \<Rightarrow> bool"

text \<open>
  The options of the parser, in the order of the \<open>add_argument\<close> calls.
\<close>

datatype flag =
    Flag_tpf_filename
  | Flag_frame
  | Flag_survey
  | Flag_width_height_arcmin
  | Flag_shrink
  | Flag_show_plot
  | Flag_plot_file
  | Flag_overwrite
  | Flag_figsize_str
  | Flag_title
  | Flag_percentile
  | Flag_cmap
  | Flag_colors_str
  | Flag_lws_str
  | Flag_zorders_str
  | Flag_marker_kwargs_str
  | Flag_print_gaia_dr2
  | Flag_gaia_dr2_kwargs_str
  | Flag_print_vsx
  | Flag_vsx_kwargs_str
  | Flag_sexagesimal
  | Flag_verbose

text \<open>
  A command line is the list of its options with their raw values, in the order
  given. An option is written with its full name, in one word (\<open>--shrink=0.5\<close>) or
  in two (\<open>--shrink 0.5\<close>). Abbreviated names, the word \<open>--\<close> and words that are
  no option of the parser are not part of the model.
\<close>

datatype arg =
    Joined flag string
  | Spaced flag string

fun flag_of :: "arg \<Rightarrow> flag" where
  "flag_of (Joined f s) = f"
| "flag_of (Spaced f s) = f"

text \<open>
  The settings the script carries from the command line to the plotting function. In
  the namespace of the parser the values of the \<open>_str\<close> options are what
  \<open>ast.literal_eval\<close> made of them (\<open>'l\<close> is \<open>'f pyval\<close>); the script turns them
  back into strings with \<open>str\<close> before it passes them on (\<open>'l\<close> is \<open>string\<close>).
\<close>

record ('f, 'l) settings =
  frame :: int
  survey :: string
  width_height_arcmin :: 'f
  shrink :: 'f
  show_plot :: "'f pyval"
  plot_file :: string
  overwrite :: "'f pyval"
  figsize_str :: 'l
  title :: "string option"
  percentile :: 'f
  cmap :: "string option"
  colors_str :: 'l
  lws_str :: 'l
  zorders_str :: 'l
  marker_kwargs_str :: 'l
  print_gaia_dr2 :: "'f pyval"
  gaia_dr2_kwargs_str :: 'l
  print_vsx :: "'f pyval"
  vsx_kwargs_str :: 'l
  sexagesimal :: "'f pyval"
  verbose :: "'f pyval"

record ('f, 'l) namespace = "('f, 'l) settings" +
  tpf_filename :: "string option"

definition marker_kwargs_default :: string where
  "marker_kwargs_default =
     ''{'edgecolor':'yellow', 's':600, 'facecolor':'None', 'lw':3, 'zorder':10}''"

definition gaia_dr2_kwargs_default :: string where
  "gaia_dr2_kwargs_default =
     ''{'edgecolor':'cyan', 's':150, 'facecolor':'None', 'lw':3, 'zorder':20}''"

definition vsx_kwargs_default :: string where
  "vsx_kwargs_default =
     ''{'s':900, 'color':'lawngreen', 'marker':'x', 'lw':5, 'zorder':30}''"

text \<open>
  The \<open>default=\<close> of each \<open>add_argument\<close> call, as \<open>parse_args\<close> first puts it into
  the namespace: a default that is a string is still that string here.
\<close>

definition parser_defaults :: "'f pylib \<Rightarrow> ('f, 'f pyval) namespace" where
  "parser_defaults L =
     \<lparr>frame = 0,
      survey = ''2MASS-J'',
      width_height_arcmin = float_literal L ''6.0'',
      shrink = float_literal L ''1.0'',
      show_plot = PBool True,
      plot_file = ''mkpy3_plot.png'',
      overwrite = PBool False,
      figsize_str = PStr ''[9,9]'',
      title = None,
      percentile = float_literal L ''99.5'',
      cmap = None,
      colors_str = PStr ''[None,'dodgerblue','red']'',
      lws_str = PStr ''[0,3,4]'',
      zorders_str = PStr ''[0,1,2]'',
      marker_kwargs_str = PStr marker_kwargs_default,
      print_gaia_dr2 = PBool True,
      gaia_dr2_kwargs_str = PStr gaia_dr2_kwargs_default,
      print_vsx = PBool True,
      vsx_kwargs_str = PStr vsx_kwargs_default,
      sexagesimal = PBool False,
      verbose = PBool False,
      tpf_filename = None\<rparr>"

text \<open>
  The options whose default is a string, with that string, in the order of the parser:
  \<open>parse_args\<close> converts such a default with the \<open>type=\<close> of the option when the
  command line did not give the option.
\<close>

definition string_defaults :: "(flag \<times> string) list" where
  "string_defaults =
     [(Flag_survey, ''2MASS-J''),
      (Flag_plot_file, ''mkpy3_plot.png''),
      (Flag_figsize_str, ''[9,9]''),
      (Flag_colors_str, ''[None,'dodgerblue','red']''),
      (Flag_lws_str, ''[0,3,4]''),
      (Flag_zorders_str, ''[0,1,2]''),
      (Flag_marker_kwargs_str, marker_kwargs_default),
      (Flag_gaia_dr2_kwargs_str, gaia_dr2_kwargs_default),
      (Flag_vsx_kwargs_str, vsx_kwargs_default)]"

text \<open>
  The parser calls the \<open>type=\<close> function on the raw value. When the function raises
  \<open>ArgumentTypeError\<close>, \<open>TypeError\<close> or \<open>ValueError\<close> the parser prints its usage
  message and ends the process with status 2; any other exception leaves the parser as
  it is. The value goes into the namespace through \<open>put\<close>.
\<close>

definition get_value :: "(string \<Rightarrow> exc + 'a) \<Rightarrow> string \<Rightarrow> ('a \<Rightarrow> 'b) \<Rightarrow> 'b outcome" where
  "get_value type_func arg_string put =
     (case type_func arg_string of
        Inr v \<Rightarrow> Returned (put v)
      | Inl (ArgumentTypeError m) \<Rightarrow> SysExit 2
      | Inl TypeError \<Rightarrow> SysExit 2
      | Inl ValueError \<Rightarrow> SysExit 2
      | Inl e \<Rightarrow> Raised e)"

text \<open>One equation for each \<open>add_argument\<close> call: its \<open>type=\<close> and its destination.\<close>

fun store ::
  "'f pylib \<Rightarrow> flag \<Rightarrow> string \<Rightarrow> ('f, 'f pyval) namespace \<Rightarrow> ('f, 'f pyval) namespace outcome" where
  "store L Flag_tpf_filename s ns = Returned (ns\<lparr>tpf_filename := Some s\<rparr>)"
| "store L Flag_frame s ns = get_value (int_of_str L) s (\<lambda>v. ns\<lparr>frame := v\<rparr>)"
| "store L Flag_survey s ns = Returned (ns\<lparr>survey := s\<rparr>)"
| "store L Flag_width_height_arcmin s ns =
     get_value (float_of_str L) s (\<lambda>v. ns\<lparr>width_height_arcmin := v\<rparr>)"
| "store L Flag_shrink s ns = get_value (float_of_str L) s (\<lambda>v. ns\<lparr>shrink := v\<rparr>)"
| "store L Flag_show_plot s ns = get_value str2bool s (\<lambda>v. ns\<lparr>show_plot := v\<rparr>)"
| "store L Flag_plot_file s ns = Returned (ns\<lparr>plot_file := s\<rparr>)"
| "store L Flag_overwrite s ns = get_value str2bool s (\<lambda>v. ns\<lparr>overwrite := v\<rparr>)"
| "store L Flag_figsize_str s ns = get_value (literal_eval L) s (\<lambda>v. ns\<lparr>figsize_str := v\<rparr>)"
| "store L Flag_title s ns = Returned (ns\<lparr>title := Some s\<rparr>)"
| "store L Flag_percentile s ns = get_value (float_of_str L) s (\<lambda>v. ns\<lparr>percentile := v\<rparr>)"
| "store L Flag_cmap s ns = Returned (ns\<lparr>cmap := Some s\<rparr>)"
| "store L Flag_colors_str s ns = get_value (literal_eval L) s (\<lambda>v. ns\<lparr>colors_str := v\<rparr>)"
| "store L Flag_lws_str s ns = get_value (literal_eval L) s (\<lambda>v. ns\<lparr>lws_str := v\<rparr>)"
| "store L Flag_zorders_str s ns = get_value (literal_eval L) s (\<lambda>v. ns\<lparr>zorders_str := v\<rparr>)"
| "store L Flag_marker_kwargs_str s ns =
     get_value (literal_eval L) s (\<lambda>v. ns\<lparr>marker_kwargs_str := v\<rparr>)"
| "store L Flag_print_gaia_dr2 s ns = get_value str2bool s (\<lambda>v. ns\<lparr>print_gaia_dr2 := v\<rparr>)"
| "store L Flag_gaia_dr2_kwargs_str s ns =
     get_value (literal_eval L) s (\<lambda>v. ns\<lparr>gaia_dr2_kwargs_str := v\<rparr>)"
| "store L Flag_print_vsx s ns = get_value str2bool s (\<lambda>v. ns\<lparr>print_vsx := v\<rparr>)"
| "store L Flag_vsx_kwargs_str s ns =
     get_value (literal_eval L) s (\<lambda>v. ns\<lparr>vsx_kwargs_str := v\<rparr>)"
| "store L Flag_sexagesimal s ns = get_value str2bool s (\<lambda>v. ns\<lparr>sexagesimal := v\<rparr>)"
| "store L Flag_verbose s ns = get_value str2bool s (\<lambda>v. ns\<lparr>verbose := v\<rparr>)"

text \<open>
  The options are taken in turn; the first that fails ends the parse. The text of an
  option written in one word is its value whatever it looks like. The second word of
  an option written in two words is its value only when the parser does not take the
  word for an option; otherwise the option has no value, and the parser prints its
  usage message and ends the process with status 2.
\<close>

fun consume ::
  "'f pylib \<Rightarrow> arg list \<Rightarrow> ('f, 'f pyval) namespace
     \<Rightarrow> ('f, 'f pyval) namespace outcome" where
  "consume L [] ns = Returned ns"
| "consume L (Joined f s # rest) ns =
     (case store L f s ns of
        Returned ns' \<Rightarrow> consume L rest ns'
      | Raised e \<Rightarrow> Raised e
      | SysExit n \<Rightarrow> SysExit n)"
| "consume L (Spaced f s # rest) ns =
     (if value_word L s
      then (case store L f s ns of
              Returned ns' \<Rightarrow> consume L rest ns'
            | Raised e \<Rightarrow> Raised e
            | SysExit n \<Rightarrow> SysExit n)
      else SysExit 2)"

text \<open>The string defaults are converted as the values of the options are.\<close>

fun convert_defaults ::
  "'f pylib \<Rightarrow> (flag \<times> string) list \<Rightarrow> ('f, 'f pyval) namespace
     \<Rightarrow> ('f, 'f pyval) namespace outcome" where
  "convert_defaults L [] ns = Returned ns"
| "convert_defaults L ((f, s) # rest) ns =
     (case store L f s ns of
        Returned ns' \<Rightarrow> convert_defaults L rest ns'
      | Raised e \<Rightarrow> Raised e
      | SysExit n \<Rightarrow> SysExit n)"

text \<open>
  \<open>parser.parse_args()\<close>: the options of the command line, then the string defaults
  of the options the command line did not give.
\<close>

definition parse_args ::
  "'f pylib \<Rightarrow> arg list \<Rightarrow> ('f, 'f pyval) namespace outcome" where
  "parse_args L argv =
     (case consume L argv (parser_defaults L) of
        Returned ns \<Rightarrow>
          convert_defaults L (filter (\<lambda>d. fst d \<notin> flag_of ` set argv) string_defaults) ns
      | Raised e \<Rightarrow> Raised e
      | SysExit n \<Rightarrow> SysExit n)"

subsection \<open>The plotting function and the main block\<close>

text \<open>
  A target pixel file object is used through two attributes only; reading an attribute
  gives a value or raises. \<open>None\<close> in its place is an object both of whose attributes
  raise \<open>AttributeError\<close>.
\<close>

record 'f tpf =
  path :: "exc + 'f pyval"
  mission :: "exc + 'f pyval"

record ('f, 'l) request = "('f, 'l) settings" +
  tpf :: "'f tpf"

text \<open>
  The world of one run: the file system, \<open>lk.open\<close>,
  \<open>lk.search_tesscut('XZ Cyg', sector=14).download(cutout_size=10, quality_bitmask=0)\<close>
  and the function \<open>mkpy3_tpf_overlay_v4\<close> of the module of that name, which the
  repository does not show (when the module cannot be imported, the function raises
  \<open>ImportError\<close> whatever it is given).
\<close>

record 'f world =
  isfile :: "string \<Rightarrow> bool"
  lk_open :: "string \<Rightarrow> exc + 'f tpf"
  lk_search_tesscut_download :: "exc + 'f tpf"
  mkpy3_tpf_overlay_v4 :: "('f, string) request \<Rightarrow> exc + 'f pyval"

text \<open>The keyword defaults of \<open>def mkpy3_tess_tpf_overlay_v3\<close> (\<open>tpf=None\<close> apart).\<close>

definition signature_defaults :: "'f pylib \<Rightarrow> ('f, string) settings" where
  "signature_defaults L =
     \<lparr>frame = 0,
      survey = ''2MASS-J'',
      width_height_arcmin = float_literal L ''6.0'',
      shrink = float_literal L ''1.0'',
      show_plot = PBool True,
      plot_file = ''mkpy3_plot.png'',
      overwrite = PBool False,
      figsize_str = ''[9,9]'',
      title = None,
      percentile = float_literal L ''99.5'',
      cmap = Some ''gray_r'',
      colors_str = ''[None,'dodgerblue','red']'',
      lws_str = ''[0,3,4]'',
      zorders_str = ''[0,1,2]'',
      marker_kwargs_str = marker_kwargs_default,
      print_gaia_dr2 = PBool True,
      gaia_dr2_kwargs_str = gaia_dr2_kwargs_default,
      print_vsx = PBool True,
      vsx_kwargs_str = vsx_kwargs_default,
      sexagesimal = PBool False,
      verbose = PBool False\<rparr>"

text \<open>
  \<open>mkpy3_tess_tpf_overlay_v3\<close> hands each of its arguments to
  \<open>mkpy3_tpf_overlay_v4\<close> under the same name and returns what that returns. The
  model gives the arguments of that call together with its result.
\<close>

definition km1_kwargs :: "('f, string) request \<Rightarrow> ('f, string) request" where
  "km1_kwargs r =
     \<lparr>frame = frame r,
      survey = survey r,
      width_height_arcmin = width_height_arcmin r,
      shrink = shrink r,
      show_plot = show_plot r,
      plot_file = plot_file r,
      overwrite = overwrite r,
      figsize_str = figsize_str r,
      title = title r,
      percentile = percentile r,
      cmap = cmap r,
      colors_str = colors_str r,
      lws_str = lws_str r,
      zorders_str = zorders_str r,
      marker_kwargs_str = marker_kwargs_str r,
      print_gaia_dr2 = print_gaia_dr2 r,
      gaia_dr2_kwargs_str = gaia_dr2_kwargs_str r,
      print_vsx = print_vsx r,
      vsx_kwargs_str = vsx_kwargs_str r,
      sexagesimal = sexagesimal r,
      verbose = verbose r,
      tpf = tpf r\<rparr>"

definition mkpy3_tess_tpf_overlay_v3 ::
  "'f world \<Rightarrow> ('f, string) request \<Rightarrow> ('f, string) request \<times> (exc + 'f pyval)" where
  "mkpy3_tess_tpf_overlay_v3 W r =
     (let kwargs = km1_kwargs r in (kwargs, mkpy3_tpf_overlay_v4 W kwargs))"

text \<open>
  Lines 342 to 363: the local variables of the main block, read from the namespace;
  the \<open>_str\<close> values go through \<open>str\<close>.
\<close>

definition read_args :: "'f pylib \<Rightarrow> ('f, 'f pyval) namespace \<Rightarrow> ('f, string) namespace" where
  "read_args L args =
     \<lparr>frame = frame args,
      survey = survey args,
      width_height_arcmin = width_height_arcmin args,
      shrink = shrink args,
      show_plot = show_plot args,
      plot_file = plot_file args,
      overwrite = overwrite args,
      figsize_str = str_of L (figsize_str args),
      title = title args,
      percentile = percentile args,
      cmap = cmap args,
      colors_str = str_of L (colors_str args),
      lws_str = str_of L (lws_str args),
      zorders_str = str_of L (zorders_str args),
      marker_kwargs_str = str_of L (marker_kwargs_str args),
      print_gaia_dr2 = print_gaia_dr2 args,
      gaia_dr2_kwargs_str = str_of L (gaia_dr2_kwargs_str args),
      print_vsx = print_vsx args,
      vsx_kwargs_str = str_of L (vsx_kwargs_str args),
      sexagesimal = sexagesimal args,
      verbose = verbose args,
      tpf_filename = tpf_filename args\<rparr>"

text \<open>
  Lines 365 to 382: the target pixel file is opened from the file named, or the default
  target is searched and downloaded; in the second case \<open>shrink\<close> and \<open>title\<close> are
  assigned anew. The result is the events so far and either the object with the local
  variables or the way the script ended.
\<close>

definition acquire_tpf ::
  "'f pylib \<Rightarrow> 'f world \<Rightarrow> ('f, string) namespace
     \<Rightarrow> event list \<times> ('f tpf \<times> ('f, string) namespace) outcome" where
  "acquire_tpf L W v =
     (case tpf_filename v of
        Some fname \<Rightarrow>
          (case check_file_exists main_globals (isfile W) (PStr fname :: 'f pyval) (PBool True) of
             (Returned u, es) \<Rightarrow>
               (case lk_open W fname of
                  Inl e \<Rightarrow> (Print (print []) # es, Raised e)
                | Inr t \<Rightarrow> (Print (print []) # es, Returned (t, v)))
           | (Raised e, es) \<Rightarrow> (Print (print []) # es, Raised e)
           | (SysExit n, es) \<Rightarrow> (Print (print []) # es, SysExit n))
      | None \<Rightarrow>
          (case lk_search_tesscut_download W of
             Inl e \<Rightarrow>
               ([Print (print []),
                 Print (print (''No TargetPixelFile (TPF) filename given.'' @ nl))],
                Raised e)
           | Inr t \<Rightarrow>
               ([Print (print []),
                 Print (print (''No TargetPixelFile (TPF) filename given.'' @ nl)),
                 Print (print []),
                 Print (print (''Using default 10x10 TPF cutout of TESS Sector 14 '' @
                               ''observations of XZ Cyg.'')),
                 Print (print [])],
                Returned (t, v\<lparr>shrink := float_mul L (shrink v) (float_literal L ''0.8''),
                               title := Some ''XZ Cyg : TESS : Sector 14''\<rparr>))))"

text \<open>
  Lines 384 to 387, the body of the \<open>try\<close>: what it printed, and the exception that
  ended it, if one did. \<open>ntpath.basename\<close> raises \<open>TypeError\<close> for a value that is no
  path.
\<close>

definition try_body :: "'f pylib \<Rightarrow> 'f tpf \<Rightarrow> event list \<times> exc option" where
  "try_body L t =
     (case path t of
        Inl e \<Rightarrow> ([], Some e)
      | Inr (PStr p) \<Rightarrow>
          (let es = [Print (print (''TPF filename:'' @ '' '' @ basename L p)),
                     Print (print (''TPF dirname: '' @ '' '' @ dirname L p))]
           in case mission t of
                Inl e \<Rightarrow> (es, Some e)
              | Inr m \<Rightarrow>
                  if m = PStr ''TESS'' then (es @ [Print (print [])], None)
                  else (es, Some AssertionError))
      | Inr _ \<Rightarrow> ([], Some TypeError))"

definition str_of_filename :: "string option \<Rightarrow> string" where
  "str_of_filename fn = (case fn of None \<Rightarrow> ''None'' | Some s \<Rightarrow> s)"

text \<open>Lines 383 to 395: the \<open>try\<close> with its handler for every \<open>Exception\<close>.\<close>

definition tess_check ::
  "'f pylib \<Rightarrow> 'f tpf \<Rightarrow> string option \<Rightarrow> event list \<times> unit outcome" where
  "tess_check L t fn =
     (case try_body L t of
        (es, None) \<Rightarrow> (es, Returned ())
      | (es, Some e) \<Rightarrow>
          (es @
           [Print (print (str_of_filename fn @ '' '' @ ''=tpf_filename'')),
            Print (print (''^--- *** ERROR *** This file does not appear to be a TESS '' @
                          ''TargetPixelFile'')),
            Print (print []),
            Print (print (''Bye...'' @ nl))],
           SysExit 1))"

text \<open>Lines 397 to 420: the arguments of the call of \<open>mkpy3_tess_tpf_overlay_v3\<close>.\<close>

definition call_kwargs :: "'f tpf \<Rightarrow> ('f, string) namespace \<Rightarrow> ('f, string) request" where
  "call_kwargs t v =
     \<lparr>frame = frame v,
      survey = survey v,
      width_height_arcmin = width_height_arcmin v,
      shrink = shrink v,
      show_plot = show_plot v,
      plot_file = plot_file v,
      overwrite = overwrite v,
      figsize_str = figsize_str v,
      title = title v,
      percentile = percentile v,
      cmap = cmap v,
      colors_str = colors_str v,
      lws_str = lws_str v,
      zorders_str = zorders_str v,
      marker_kwargs_str = marker_kwargs_str v,
      print_gaia_dr2 = print_gaia_dr2 v,
      gaia_dr2_kwargs_str = gaia_dr2_kwargs_str v,
      print_vsx = print_vsx v,
      vsx_kwargs_str = vsx_kwargs_str v,
      sexagesimal = sexagesimal v,
      verbose = verbose v,
      tpf = t\<rparr>"

text \<open>
  A run of the main block: the events, the arguments \<open>mkpy3_tpf_overlay_v4\<close> was
  called with (if the run came that far, as \<open>mkpy3_tess_tpf_overlay_v3\<close> gives them),
  and the way the run ended.
\<close>

record 'f script_run =
  events :: "event list"
  delegated :: "('f, string) request option"
  ending :: "unit outcome"

definition main_after_parse ::
  "'f pylib \<Rightarrow> 'f world \<Rightarrow> ('f, 'f pyval) namespace \<Rightarrow> 'f script_run" where
  "main_after_parse L W args =
     (case acquire_tpf L W (read_args L args) of
        (es, Raised e) \<Rightarrow> \<lparr>events = es, delegated = None, ending = Raised e\<rparr>
      | (es, SysExit n) \<Rightarrow> \<lparr>events = es, delegated = None, ending = SysExit n\<rparr>
      | (es, Returned (t, v)) \<Rightarrow>
          (case tess_check L t (tpf_filename v) of
             (es', Raised e) \<Rightarrow> \<lparr>events = es @ es', delegated = None, ending = Raised e\<rparr>
           | (es', SysExit n) \<Rightarrow> \<lparr>events = es @ es', delegated = None, ending = SysExit n\<rparr>
           | (es', Returned u) \<Rightarrow>
               (case mkpy3_tess_tpf_overlay_v3 W (call_kwargs t v) of
                  (kwargs, Inl e) \<Rightarrow>
                    \<lparr>events = es @ es', delegated = Some kwargs, ending = Raised e\<rparr>
                | (kwargs, Inr ax) \<Rightarrow>
                    \<lparr>events = es @ es', delegated = Some kwargs, ending = Returned ()\<rparr>)))"

definition main_block :: "'f pylib \<Rightarrow> 'f world \<Rightarrow> arg list \<Rightarrow> 'f script_run" where
  "main_block L W argv =
     (case parse_args L argv of
        Raised e \<Rightarrow> \<lparr>events = [], delegated = None, ending = Raised e\<rparr>
      | SysExit n \<Rightarrow> \<lparr>events = [], delegated = None, ending = SysExit n\<rparr>
      | Returned args \<Rightarrow> main_after_parse L W args)"

section \<open>Concrete inputs\<close>

text \<open>
  Inputs on which the model is run below. \<open>symbolic_lib\<close> computes with floats as
  the texts that denote them, and takes a word for a value as \<open>argparse\<close> does for
  this parser: the empty word, a word that does not start with \<open>-\<close>, the word \<open>-\<close>,
  and, unless the word up to its first \<open>=\<close> starts with \<open>--\<close> and starts the name
  of an option, a word of the form \<open>-digits\<close> or \<open>-digits.digits\<close> (the first digits
  may be missing in the second form) and a word with a blank in it. \<open>demo_world\<close> has one file, \<open>out.png\<close>, opens
  \<open>tess.fits\<close> as a TESS product and any other name as a Kepler product, and has a
  plotting function that returns \<open>None\<close>. \<open>demo_run\<close> is a child process that
  succeeds for \<open>./mkpy3_a.py\<close> and fails for any other script.
\<close>

definition option_strings :: "string list" where
  "option_strings =
     [''--tpf_filename'', ''--frame'', ''--survey'', ''--width_height_arcmin'', ''--shrink'',
      ''--show_plot'', ''--plot_file'', ''--overwrite'', ''--figsize_str'', ''--title'',
      ''--percentile'', ''--cmap'', ''--colors_str'', ''--lws_str'', ''--zorders_str'',
      ''--marker_kwargs_str'', ''--print_gaia_dr2'', ''--gaia_dr2_kwargs_str'', ''--print_vsx'',
      ''--vsx_kwargs_str'', ''--sexagesimal'', ''--verbose'']"

definition is_digit :: "char \<Rightarrow> bool" where
  "is_digit c = (CHR ''0'' \<le> c \<and> c \<le> CHR ''9'')"

definition negative_number :: "string \<Rightarrow> bool" where
  "negative_number w =
     (case w of
        [] \<Rightarrow> False
      | c # r \<Rightarrow>
          c = CHR ''-'' \<and>
          ((r \<noteq> [] \<and> list_all is_digit r) \<or>
           (case dropWhile is_digit r of
              [] \<Rightarrow> False
            | d # e \<Rightarrow> d = CHR ''.'' \<and> e \<noteq> [] \<and> list_all is_digit e)))"

definition names_option :: "string \<Rightarrow> bool" where
  "names_option w =
     (let p = takeWhile (\<lambda>c. c \<noteq> CHR ''='') w
      in take 2 w = ''--'' \<and> list_ex (\<lambda>opt. take (length p) opt = p) option_strings)"

definition argparse_value_word :: "string \<Rightarrow> bool" where
  "argparse_value_word w =
     (w = [] \<or> hd w \<noteq> CHR ''-'' \<or> w = ''-'' \<or>
      (\<not> names_option w \<and> (negative_number w \<or> CHR '' '' \<in> set w)))"

definition symbolic_lib :: "string pylib" where
  "symbolic_lib =
     \<lparr>float_literal = (\<lambda>s. s),
      float_of_str = (\<lambda>s. if s = [] then Inl ValueError else Inr s),
      float_mul = (\<lambda>a b. a @ ''*'' @ b),
      int_of_str = (\<lambda>s. if s = ''0'' then Inr 0 else Inl ValueError),
      literal_eval = (\<lambda>s. Inr (PStr s)),
      str_of = (\<lambda>v. case v of PStr s \<Rightarrow> s | _ \<Rightarrow> []),
      basename = (\<lambda>s. s),
      dirname = (\<lambda>s. []),
      value_word = argparse_value_word\<rparr>"

definition demo_world :: "string world" where
  "demo_world =
     \<lparr>isfile = (\<lambda>f. f = ''out.png''),
      lk_open = (\<lambda>f. Inr \<lparr>path = Inr (PStr f),
                          mission = Inr (PStr (if f = ''tess.fits'' then ''TESS'' else ''Kepler''))\<rparr>),
      lk_search_tesscut_download = Inr \<lparr>path = Inr (PStr ''tesscut.fits''), mission = Inr (PStr ''TESS'')\<rparr>,
      mkpy3_tpf_overlay_v4 = (\<lambda>r. Inr PNone)\<rparr>"

definition demo_run :: "string list \<Rightarrow> exc + completed_process" where
  "demo_run cmd =
     (if cmd = [''python3'', ''./mkpy3_a.py'']
      then Inr \<lparr>returncode = 0, captured_stdout = ''fine'', captured_stderr = []\<rparr>
      else Inr \<lparr>returncode = 1, captured_stdout = [], captured_stderr = ''Traceback''\<rparr>)"


section \<open>Properties of the test runner\<close>

lemma loop_body_cases:
  assumes "loop_body run (k, name) st = Inr st'"
  shows "\<exists>r. run [''python3'', name] = Inr r \<and>
    good st' = (if returncode r = 0 then good st + 1 else good st) \<and>
    bad st' = (if returncode r = 0 then bad st else bad st + 1) \<and>
    launched st' = launched st @ [[''python3'', name]]"
proof (cases "run [''python3'', name]")
  case (Inl e)
  with assms show ?thesis by (simp add: loop_body_def)
next
  case (Inr r)
  with assms show ?thesis
    by (cases "returncode r = 0") (auto simp: loop_body_def Let_def)
qed

lemma loop_body_count:
  assumes "loop_body run kn st = Inr st'"
  shows "good st' + bad st' = good st + bad st + 1"
proof -
  obtain k name where kn: "kn = (k, name)" by (cases kn)
  from loop_body_cases [OF assms [unfolded kn]] show ?thesis by auto
qed

lemma for_loop_append:
  "for_loop run (xs @ ys) st =
     (case for_loop run xs st of Inl e \<Rightarrow> Inl e | Inr st' \<Rightarrow> for_loop run ys st')"
  by (induction xs arbitrary: st) (auto split: sum.splits)

lemma for_loop_count:
  "for_loop run kns st = Inr st' \<Longrightarrow> good st' + bad st' = good st + bad st + int (length kns)"
proof (induction kns arbitrary: st)
  case Nil
  then show ?case by simp
next
  case (Cons kn kns)
  from Cons.prems obtain st1 where b: "loop_body run kn st = Inr st1"
    and r: "for_loop run kns st1 = Inr st'"
    by (auto split: sum.splits)
  from Cons.IH [OF r] loop_body_count [OF b] show ?case by simp
qed

lemma runner_summary_counts:
  "good (runner_summary sz st) = good st \<and> bad (runner_summary sz st) = bad st"
  by (simp add: runner_summary_def Let_def)

lemma for_loop_prefix:
  assumes "for_loop run kns st = Inr st'"
  shows "\<exists>st_k. for_loop run (take k kns) st = Inr st_k"
proof -
  have "for_loop run (take k kns @ drop k kns) st = Inr st'" using assms by simp
  then show ?thesis unfolding for_loop_append by (auto split: sum.splits)
qed

text \<open>A run in which every child process can be started completes.\<close>

lemma loop_body_completes:
  assumes "run [''python3'', snd kn] = Inr r"
  shows "\<exists>st'. loop_body run kn st = Inr st'"
  using assms by (simp add: loop_body_def Let_def)

lemma for_loop_completes:
  "(\<And>kn. kn \<in> set kns \<Longrightarrow> \<exists>r. run [''python3'', snd kn] = Inr r)
     \<Longrightarrow> \<exists>st'. for_loop run kns st = Inr st'"
proof (induction kns arbitrary: st)
  case Nil
  then show ?case by simp
next
  case (Cons kn kns)
  from Cons.prems [of kn] obtain r where "run [''python3'', snd kn] = Inr r" by auto
  then obtain st1 where b: "loop_body run kn st = Inr st1"
    using loop_body_completes [of run kn r st] by blast
  from Cons.IH [of st1] Cons.prems obtain st' where "for_loop run kns st1 = Inr st'"
    by auto
  with b show ?case by simp
qed

lemma check_mkpy3_completes:
  assumes "\<And>name. name \<in> set globbed \<Longrightarrow> \<exists>r. run [''python3'', name] = Inr r"
  shows "\<exists>st. check_mkpy3 cwd globbed run = Inr st"
proof -
  have "\<exists>r. run [''python3'', snd kn] = Inr r"
    if "kn \<in> set (enumerate 1 (sort globbed))" for kn
  proof -
    from that have "snd kn \<in> set (sort globbed)"
      by (metis in_set_zipE enumerate_eq_zip prod.collapse)
    then show ?thesis using assms by simp
  qed
  from for_loop_completes [of "enumerate 1 (sort globbed)" run, OF this]
  obtain st' where "for_loop run (enumerate 1 (sort globbed))
      (runner_init cwd (length (sort globbed))) = Inr st'" by blast
  then show ?thesis by (simp add: check_mkpy3_def Let_def)
qed

lemma sorted_demo:
  "sort [''./mkpy3_b.py'', ''./mkpy3_a.py''] = [''./mkpy3_a.py'', ''./mkpy3_b.py'']"
  by code_simp

lemma demo_check:
  "\<exists>st. check_mkpy3 ''/w'' [''./mkpy3_b.py'', ''./mkpy3_a.py''] demo_run = Inr st \<and>
        good st = 1 \<and> bad st = 1"
  by (simp add: check_mkpy3_def sorted_demo enumerate_eq_zip upt_rec loop_body_def
      demo_run_def Let_def runner_summary_def runner_init_def)

text \<open>
  C5, as amended. When the run of the test runner completes, the count of the scripts
  that passed plus the count of those that failed is the number of the scripts found;
  after \<open>k\<close> turns of the loop the two counts add up to \<open>k\<close>, the number of the
  scripts checked so far.
\<close>

theorem runner_counts:
  assumes "check_mkpy3 cwd globbed run = Inr st"
  shows "good st + bad st = int (length (sort globbed)) \<and>
         length (sort globbed) = length globbed \<and>
         (\<forall>k \<le> length globbed. \<exists>st_k.
            for_loop run (take k (enumerate 1 (sort globbed)))
              (runner_init cwd (length (sort globbed))) = Inr st_k \<and>
            good st_k + bad st_k = int k)"
proof -
  let ?filel = "sort globbed"
  let ?init = "runner_init cwd (length ?filel)"
  from assms obtain st2 where l: "for_loop run (enumerate 1 ?filel) ?init = Inr st2"
    and s: "st = runner_summary (length ?filel) st2"
    by (auto simp: check_mkpy3_def Let_def split: sum.splits)
  have i: "good ?init + bad ?init = 0" by (simp add: runner_init_def)
  have "good st2 + bad st2 = int (length ?filel)"
    using for_loop_count [OF l] i by simp
  then have a: "good st + bad st = int (length ?filel)"
    using s runner_summary_counts by simp
  have b: "\<exists>st_k. for_loop run (take k (enumerate 1 ?filel)) ?init = Inr st_k \<and>
             good st_k + bad st_k = int k" if "k \<le> length globbed" for k
  proof -
    from for_loop_prefix [OF l] obtain st_k
      where p: "for_loop run (take k (enumerate 1 ?filel)) ?init = Inr st_k" by blast
    have "length (take k (enumerate 1 ?filel)) = k" using that by simp
    with for_loop_count [OF p] i have "good st_k + bad st_k = int k" by simp
    with p show ?thesis by blast
  qed
  from a b show ?thesis by simp
qed

theorem runner_counts_witness:
  "\<exists>st. check_mkpy3 ''/w'' [''./mkpy3_b.py'', ''./mkpy3_a.py''] demo_run = Inr st \<and>
        good st = 1 \<and> bad st = 1 \<and> good st + bad st = 2 \<and>
        (\<forall>k \<le> 2. \<exists>st_k.
            for_loop demo_run (take k (enumerate 1 (sort [''./mkpy3_b.py'', ''./mkpy3_a.py''])))
              (runner_init ''/w'' (length (sort [''./mkpy3_b.py'', ''./mkpy3_a.py'']))) = Inr st_k \<and>
            good st_k + bad st_k = int k)"
proof -
  from demo_check obtain st
    where h: "check_mkpy3 ''/w'' [''./mkpy3_b.py'', ''./mkpy3_a.py''] demo_run = Inr st"
      and c: "good st = 1 \<and> bad st = 1" by blast
  from runner_counts [OF h] h c show ?thesis by auto
qed

text \<open>
  C5, as stated, fails: the two counts do not add up to the number of the scripts found
  after each turn of the loop. With two scripts found, after the first turn one script
  has passed and none has failed.
\<close>

theorem runner_counts_counterexample:
  "map_sum id good
     (for_loop demo_run (take 1 (enumerate 1 (sort [''./mkpy3_b.py'', ''./mkpy3_a.py''])))
        (runner_init ''/w'' (length (sort [''./mkpy3_b.py'', ''./mkpy3_a.py''])))) = Inr 1 \<and>
   map_sum id bad
     (for_loop demo_run (take 1 (enumerate 1 (sort [''./mkpy3_b.py'', ''./mkpy3_a.py''])))
        (runner_init ''/w'' (length (sort [''./mkpy3_b.py'', ''./mkpy3_a.py''])))) = Inr 0 \<and>
   (1 :: int) + 0 \<noteq> int (length (sort [''./mkpy3_b.py'', ''./mkpy3_a.py'']))"
  by (simp add: sorted_demo enumerate_eq_zip upt_rec loop_body_def demo_run_def Let_def
      runner_init_def)

text \<open>The verdict of the loop depends on the exit codes only.\<close>

lemma loop_body_exit_code:
  assumes "exit_code run' name = exit_code run name"
  shows "loop_body run' (k, name) st = loop_body run (k, name) st \<or>
         (\<exists>e e'. loop_body run (k, name) st = Inl e \<and> loop_body run' (k, name) st = Inl e')"
  using assms
  by (cases "run [''python3'', name]"; cases "run' [''python3'', name]")
     (simp_all add: exit_code_def loop_body_def Let_def)

lemma for_loop_exit_codes:
  assumes "for_loop run (enumerate n filel) st = Inr st'"
    and "\<And>name. name \<in> set filel \<Longrightarrow> exit_code run' name = exit_code run name"
  shows "for_loop run' (enumerate n filel) st = Inr st'"
  using assms
proof (induction filel arbitrary: n st)
  case Nil
  then show ?case by simp
next
  case (Cons name filel)
  from Cons.prems(1) obtain st1 where b: "loop_body run (n, name) st = Inr st1"
    and r: "for_loop run (enumerate (Suc n) filel) st1 = Inr st'"
    by (auto split: sum.splits)
  have "exit_code run' name = exit_code run name" using Cons.prems(2) by simp
  from loop_body_exit_code [OF this, of n st] b
  have b': "loop_body run' (n, name) st = Inr st1" by auto
  have "for_loop run' (enumerate (Suc n) filel) st1 = Inr st'"
    using Cons.IH [OF r] Cons.prems(2) by simp
  with b' show ?case by simp
qed

lemma for_loop_verdicts:
  assumes "for_loop run (enumerate n filel) st = Inr st'"
  shows "(\<forall>name \<in> set filel. exit_code run name \<noteq> None) \<and>
         launched st' = launched st @ map (\<lambda>name. [''python3'', name]) filel \<and>
         good st' = good st + int (length (filter (\<lambda>name. exit_code run name = Some 0) filel)) \<and>
         bad st' = bad st + int (length (filter (\<lambda>name. exit_code run name \<noteq> Some 0) filel))"
  using assms
proof (induction filel arbitrary: n st)
  case Nil
  then show ?case by simp
next
  case (Cons name filel)
  from Cons.prems obtain st1 where b: "loop_body run (n, name) st = Inr st1"
    and r: "for_loop run (enumerate (Suc n) filel) st1 = Inr st'"
    by (auto split: sum.splits)
  from loop_body_cases [OF b] obtain res where res: "run [''python3'', name] = Inr res"
    and g: "good st1 = (if returncode res = 0 then good st + 1 else good st)"
    and bd: "bad st1 = (if returncode res = 0 then bad st else bad st + 1)"
    and l: "launched st1 = launched st @ [[''python3'', name]]" by blast
  have ec: "exit_code run name = Some (returncode res)" using res by (simp add: exit_code_def)
  from Cons.IH [OF r] g bd l ec show ?case by auto
qed

text \<open>
  C6. In a loop that completes, each script found was started once, in order, and its
  child process gave an exit code; the scripts counted as passed are those with exit
  code zero and the scripts counted as failed those with another exit code; a turn of
  the loop counts the script as failed exactly when the exit code is not zero; and
  child processes with the same exit codes (whatever they wrote) give the same result.
\<close>

theorem classification_by_exit_code:
  assumes "for_loop run (enumerate n filel) st = Inr st'"
  shows "(\<forall>name \<in> set filel. exit_code run name \<noteq> None) \<and>
         launched st' = launched st @ map (\<lambda>name. [''python3'', name]) filel \<and>
         good st' = good st + int (length (filter (\<lambda>name. exit_code run name = Some 0) filel)) \<and>
         bad st' = bad st + int (length (filter (\<lambda>name. exit_code run name \<noteq> Some 0) filel)) \<and>
         (\<forall>k name st1 st2. name \<in> set filel \<and> loop_body run (k, name) st1 = Inr st2 \<longrightarrow>
            (exit_code run name \<noteq> Some 0 \<longleftrightarrow> bad st2 = bad st1 + 1 \<and> good st2 = good st1) \<and>
            (exit_code run name = Some 0 \<longleftrightarrow> good st2 = good st1 + 1 \<and> bad st2 = bad st1)) \<and>
         (\<forall>run'. (\<forall>name \<in> set filel. exit_code run' name = exit_code run name) \<longrightarrow>
            for_loop run' (enumerate n filel) st = Inr st')"
proof -
  have v: "(exit_code run name \<noteq> Some 0 \<longleftrightarrow> bad st2 = bad st1 + 1 \<and> good st2 = good st1) \<and>
           (exit_code run name = Some 0 \<longleftrightarrow> good st2 = good st1 + 1 \<and> bad st2 = bad st1)"
    if "loop_body run (k, name) st1 = Inr st2" for k name st1 st2
  proof -
    from loop_body_cases [OF that] obtain res where "run [''python3'', name] = Inr res"
      and "good st2 = (if returncode res = 0 then good st1 + 1 else good st1)"
      and "bad st2 = (if returncode res = 0 then bad st1 else bad st1 + 1)" by blast
    then show ?thesis by (auto simp: exit_code_def)
  qed
  have i: "for_loop run' (enumerate n filel) st = Inr st'"
    if "\<forall>name \<in> set filel. exit_code run' name = exit_code run name" for run'
    using for_loop_exit_codes [OF assms] that by blast
  from for_loop_verdicts [OF assms] v i show ?thesis by blast
qed

theorem classification_by_exit_code_witness:
  "\<exists>st'. for_loop demo_run (enumerate 1 [''./mkpy3_a.py'', ''./mkpy3_b.py''])
            (runner_init ''/w'' 2) = Inr st' \<and>
     launched st' = [[''python3'', ''./mkpy3_a.py''], [''python3'', ''./mkpy3_b.py'']] \<and>
     good st' = 1 \<and> bad st' = 1 \<and>
     exit_code demo_run ''./mkpy3_a.py'' = Some 0 \<and>
     exit_code demo_run ''./mkpy3_b.py'' = Some 1"
proof -
  have "\<exists>st'. for_loop demo_run (enumerate 1 [''./mkpy3_a.py'', ''./mkpy3_b.py''])
            (runner_init ''/w'' 2) = Inr st'"
    by (simp add: loop_body_def demo_run_def Let_def)
  then obtain st' where h: "for_loop demo_run (enumerate 1 [''./mkpy3_a.py'', ''./mkpy3_b.py''])
            (runner_init ''/w'' 2) = Inr st'" by blast
  have e: "exit_code demo_run ''./mkpy3_a.py'' = Some 0 \<and>
           exit_code demo_run ''./mkpy3_b.py'' = Some 1"
    by (simp add: exit_code_def demo_run_def)
  have i: "launched (runner_init ''/w'' 2) = [] \<and> good (runner_init ''/w'' 2) = 0 \<and>
           bad (runner_init ''/w'' 2) = 0" by (simp add: runner_init_def)
  from classification_by_exit_code [OF h] h e i show ?thesis by simp
qed

section \<open>Properties of the output guard and of the boolean parser\<close>

lemma error_text_already_exists:
  "contains (print (nl @ ''***** ERROR *****'' @ nl @ nl @ msg)) ''already exists''"
  by (simp add: print_def nl_def msg_def)

lemma lower_examples:
  "lower ''YeS'' = ''yes'' \<and> lower ''FALSE'' = ''false'' \<and> lower ''maybe'' = ''maybe''"
  by code_simp

text \<open>
  While the script runs, \<open>os\<close> and \<open>sys\<close> are bound. There a call with a string
  and \<open>overwrite=False\<close> for which the file exists asks the file system once, prints
  two texts, the first of which contains \<open>already exists\<close>, and ends the process by
  \<open>sys.exit(1)\<close>; a call with \<open>overwrite=True\<close>, or for a path at which there is
  no file, returns and prints nothing.
\<close>

lemma script_guard_exits_when_file_exists:
  assumes "fs fname"
  shows "check_file_exists main_globals fs (PStr fname :: 'f pyval) (PBool False) =
           (SysExit 1,
            [IsFile fname,
             Print (print (nl @ ''***** ERROR *****'' @ nl @ nl @ msg)),
             Print (print (''new_filename='' @ quote @ fname @ quote @ nl))]) \<and>
         exit_status (fst (check_file_exists main_globals fs (PStr fname :: 'f pyval)
                        (PBool False))) = 1 \<and>
         (\<exists>s \<in> set (printed_text
                      (snd (check_file_exists main_globals fs (PStr fname :: 'f pyval)
                             (PBool False)))).
            contains s ''already exists'')"
proof -
  let ?A = "print (nl @ ''***** ERROR *****'' @ nl @ nl @ msg)"
  let ?B = "print (''new_filename='' @ quote @ fname @ quote @ nl)"
  let ?call = "check_file_exists main_globals fs (PStr fname :: 'f pyval) (PBool False)"
  have eq: "?call = (SysExit 1, [IsFile fname, Print ?A, Print ?B])"
    using assms by (simp add: check_file_exists_def main_globals_def)
  have st: "exit_status (fst ?call) = 1"
    unfolding eq by simp
  have "printed_text (snd ?call) = [?A, ?B]"
    unfolding eq by simp
  then have "?A \<in> set (printed_text (snd ?call))"
    by (metis list.set_intros(1))
  with error_text_already_exists
  have "\<exists>s \<in> set (printed_text (snd ?call)). contains s ''already exists''"
    by blast
  with eq st show ?thesis by blast
qed

lemma script_guard_returns_normally:
  "check_file_exists globals fs (PStr fname :: 'f pyval) (PBool True) = (Returned (), []) \<and>
   (\<not> fs fname \<longrightarrow>
      fst (check_file_exists main_globals fs (PStr fname :: 'f pyval) (PBool ow)) = Returned () \<and>
      printed_text (snd (check_file_exists main_globals fs (PStr fname :: 'f pyval) (PBool ow))) = [])"
  by (simp add: check_file_exists_def main_globals_def)

text \<open>
  The main block calls the function once, with \<open>True\<close> (line 367): no run of the
  script asks the file system through it.
\<close>

lemma acquire_tpf_prints_only:
  assumes "acquire_tpf L W v = (es, res)"
  shows "IsFile f \<notin> set es"
proof (cases "tpf_filename v")
  case None
  with assms show ?thesis
    by (cases "lk_search_tesscut_download W") (auto simp: acquire_tpf_def)
next
  case (Some fname)
  with assms show ?thesis
    by (cases "lk_open W fname") (auto simp: acquire_tpf_def check_file_exists_def)
qed

lemma tess_check_prints_only:
  assumes "tess_check L t fn = (es, res)"
  shows "IsFile f \<notin> set es"
proof -
  obtain es0 r0 where b: "try_body L t = (es0, r0)" by (cases "try_body L t")
  have "IsFile f \<notin> set es0"
  proof (cases "path t")
    case (Inl e)
    with b show ?thesis by (auto simp: try_body_def)
  next
    case (Inr p)
    with b show ?thesis
      by (cases p; cases "mission t") (auto simp: try_body_def Let_def split: if_splits)
  qed
  with assms b show ?thesis by (cases r0) (auto simp: tess_check_def)
qed

lemma main_never_asks_isfile: "IsFile f \<notin> set (events (main_block L W argv))"
proof (cases "parse_args L argv")
  case (Returned args)
  obtain es res where a: "acquire_tpf L W (read_args L args) = (es, res)"
    by (cases "acquire_tpf L W (read_args L args)")
  note n = acquire_tpf_prints_only [OF a, of f]
  show ?thesis
  proof (cases res)
    case res: (Returned tv)
    obtain t v where tv: "tv = (t, v)" by (cases tv)
    obtain es' res' where c: "tess_check L t (tpf_filename v) = (es', res')"
      by (cases "tess_check L t (tpf_filename v)")
    note n' = tess_check_prints_only [OF c, of f]
    obtain kw ax where k: "mkpy3_tess_tpf_overlay_v3 W (call_kwargs t v) = (kw, ax)"
      by (cases "mkpy3_tess_tpf_overlay_v3 W (call_kwargs t v)")
    from Returned a res tv c k n n' show ?thesis
      by (cases res'; cases ax) (simp_all add: main_block_def main_after_parse_def)
  next
    case (Raised e)
    with Returned a n show ?thesis by (simp add: main_block_def main_after_parse_def)
  next
    case (SysExit k)
    with Returned a n show ?thesis by (simp add: main_block_def main_after_parse_def)
  qed
next
  case (Raised e)
  then show ?thesis by (simp add: main_block_def)
next
  case (SysExit k)
  then show ?thesis by (simp add: main_block_def)
qed

text \<open>
  C1. In a module that imports the file the names \<open>os\<close> and \<open>sys\<close> are unbound
  (line 34 deletes \<open>sys\<close>, and lines 235 and 236 are not run). There a call with a
  string and \<open>overwrite=False\<close> raises \<open>NameError\<close> at \<open>os.path.isfile\<close>, whether
  the file exists or not: it prints nothing and does not end the process by
  \<open>sys.exit(1)\<close>.
\<close>

theorem guard_raises_NameError_when_imported:
  "check_file_exists import_globals fs (PStr fname :: 'f pyval) (PBool False) =
     (Raised (NameError ''os''), []) \<and>
   printed_text (snd (check_file_exists import_globals fs (PStr fname :: 'f pyval)
                        (PBool False))) = [] \<and>
   fst (check_file_exists import_globals fs (PStr fname :: 'f pyval) (PBool False))
     \<noteq> SysExit 1"
  by (simp add: check_file_exists_def import_globals_def)

text \<open>
  C3. In a module that imports the file, a call for the path \<open>new.png\<close>, at which
  there is no file, with \<open>overwrite=False\<close> does not return: it raises \<open>NameError\<close>.
  The same call with \<open>overwrite=True\<close> returns.
\<close>

theorem guard_without_file_raises_when_imported:
  "\<not> isfile demo_world ''new.png'' \<and>
   fst (check_file_exists import_globals (isfile demo_world) (PStr ''new.png'' :: string pyval)
          (PBool False)) = Raised (NameError ''os'') \<and>
   check_file_exists import_globals (isfile demo_world) (PStr ''new.png'' :: string pyval)
     (PBool True) = (Returned (), [])"
  by (simp add: check_file_exists_def import_globals_def demo_world_def)

text \<open>
  C10. A call in which \<open>filename\<close> is no string or \<open>overwrite\<close> is no boolean raises
  \<open>AssertionError\<close> with no event before it; a call with a string and a boolean never
  raises \<open>AssertionError\<close>.
\<close>

theorem guard_asserts_argument_types:
  "((\<forall>s. x \<noteq> PStr s) \<or> (\<forall>b. y \<noteq> PBool b) \<longrightarrow>
      check_file_exists globals fs (x :: 'f pyval) y = (Raised AssertionError, [])) \<and>
   fst (check_file_exists globals fs (PStr s :: 'f pyval) (PBool b)) \<noteq> Raised AssertionError"
proof -
  have a: "check_file_exists globals fs x y = (Raised AssertionError, [])"
    if "\<forall>s. x \<noteq> PStr s"
    using that by (cases x) (simp_all add: check_file_exists_def)
  have b: "check_file_exists globals fs x y = (Raised AssertionError, [])"
    if h: "\<forall>b. y \<noteq> PBool b"
  proof (cases y)
    case (PBool b0)
    with h show ?thesis by blast
  qed (cases x; simp add: check_file_exists_def)+
  have c: "fst (check_file_exists globals fs (PStr s :: 'f pyval) (PBool b)) \<noteq> Raised AssertionError"
    by (simp add: check_file_exists_def)
  from a b c show ?thesis by blast
qed

theorem guard_asserts_argument_types_witness:
  "check_file_exists main_globals (isfile demo_world) (PInt 7 :: string pyval) (PBool False)
     = (Raised AssertionError, []) \<and>
   check_file_exists main_globals (isfile demo_world) (PStr ''out.png'' :: string pyval) (PInt 1)
     = (Raised AssertionError, []) \<and>
   fst (check_file_exists main_globals (isfile demo_world) (PStr ''out.png'' :: string pyval)
         (PBool False)) \<noteq> Raised AssertionError"
proof -
  have a: "\<forall>s. (PInt 7 :: string pyval) \<noteq> PStr s" by simp
  have b: "\<forall>b. (PInt 1 :: string pyval) \<noteq> PBool b" by simp
  from guard_asserts_argument_types
         [of "PInt 7 :: string pyval" "PBool False" main_globals "isfile demo_world"
             "''out.png''" False]
       guard_asserts_argument_types
         [of "PStr ''out.png'' :: string pyval" "PInt 1" main_globals "isfile demo_world"
             "''out.png''" False]
       a b
  show ?thesis by blast
qed

text \<open>
  C2. \<open>str2bool\<close> returns \<open>True\<close> for a string whose lower-case form is one of
  \<open>yes\<close>, \<open>true\<close>, \<open>t\<close>, \<open>y\<close>, \<open>1\<close>, returns \<open>False\<close> for one whose lower-case form
  is one of \<open>no\<close>, \<open>false\<close>, \<open>f\<close>, \<open>n\<close>, \<open>0\<close>, and raises \<open>ArgumentTypeError\<close> for
  every other string; a value it returns is a boolean; two strings that differ in
  letter case only get the same result.
\<close>

theorem str2bool_cases:
  "(lower v \<in> {''yes'', ''true'', ''t'', ''y'', ''1''} \<longrightarrow>
      (str2bool v :: exc + 'f pyval) = Inr (PBool True)) \<and>
   (lower v \<in> {''no'', ''false'', ''f'', ''n'', ''0''} \<longrightarrow>
      (str2bool v :: exc + 'f pyval) = Inr (PBool False)) \<and>
   (lower v \<notin> {''yes'', ''true'', ''t'', ''y'', ''1''} \<union> {''no'', ''false'', ''f'', ''n'', ''0''} \<longrightarrow>
      (str2bool v :: exc + 'f pyval) = Inl (ArgumentTypeError ''Boolean value expected.'')) \<and>
   (\<forall>x :: 'f pyval. str2bool v = Inr x \<longrightarrow> (\<exists>b. x = PBool b)) \<and>
   (\<forall>w. lower w = lower v \<longrightarrow> (str2bool w :: exc + 'f pyval) = str2bool v)"
  by (auto simp: str2bool_def)

theorem str2bool_cases_witness:
  "(str2bool ''YeS'' :: exc + string pyval) = Inr (PBool True) \<and>
   (str2bool ''FALSE'' :: exc + string pyval) = Inr (PBool False) \<and>
   (str2bool ''maybe'' :: exc + string pyval) = Inl (ArgumentTypeError ''Boolean value expected.'')"
proof -
  have a: "lower ''YeS'' \<in> {''yes'', ''true'', ''t'', ''y'', ''1''}"
    using lower_examples by simp
  have b: "lower ''FALSE'' \<in> {''no'', ''false'', ''f'', ''n'', ''0''}"
    using lower_examples by simp
  have c: "lower ''maybe'' \<notin> {''yes'', ''true'', ''t'', ''y'', ''1''} \<union>
                               {''no'', ''false'', ''f'', ''n'', ''0''}"
    using lower_examples by simp
  from str2bool_cases [of "''YeS''", where 'f = string]
       str2bool_cases [of "''FALSE''", where 'f = string]
       str2bool_cases [of "''maybe''", where 'f = string]
       a b c
  show ?thesis by blast
qed

section \<open>Properties of the command line and of the main block\<close>

lemma consume_append:
  "consume L (xs @ ys) ns =
     (case consume L xs ns of
        Returned ns' \<Rightarrow> consume L ys ns'
      | Raised e \<Rightarrow> Raised e
      | SysExit n \<Rightarrow> SysExit n)"
proof (induction xs arbitrary: ns)
  case Nil
  show ?case by simp
next
  case (Cons x xs)
  show ?case
  proof (cases x)
    case (Joined f s)
    show ?thesis unfolding Joined by (cases "store L f s ns") (simp_all add: Cons.IH)
  next
    case (Spaced f s)
    show ?thesis unfolding Spaced by (cases "store L f s ns") (simp_all add: Cons.IH)
  qed
qed

lemma consume_Cons_Returned:
  assumes "consume L (x # xs) ns = Returned ns'"
  obtains f s ns1 where "flag_of x = f" and "store L f s ns = Returned ns1"
    and "consume L xs ns1 = Returned ns'"
proof (cases x)
  case (Joined f s)
  with assms that [of f s] show ?thesis
    by (cases "store L f s ns") simp_all
next
  case (Spaced f s)
  with assms that [of f s] show ?thesis
    by (cases "value_word L s"; cases "store L f s ns") simp_all
qed

lemma convert_defaults_Cons_Returned:
  assumes "convert_defaults L ((f, s) # ds) ns = Returned ns'"
  obtains ns1 where "store L f s ns = Returned ns1"
    and "convert_defaults L ds ns1 = Returned ns'"
  using assms by (cases "store L f s ns") simp_all

lemma parse_args_Returned:
  assumes "parse_args L argv = Returned args"
  obtains ns1 where "consume L argv (parser_defaults L) = Returned ns1"
    and "convert_defaults L (filter (\<lambda>d. fst d \<notin> flag_of ` set argv) string_defaults) ns1
           = Returned args"
  using assms unfolding parse_args_def
  by (cases "consume L argv (parser_defaults L)") simp_all

lemma get_value_Returned:
  "get_value type_func s put = Returned y \<longleftrightarrow> (\<exists>v. type_func s = Inr v \<and> y = put v)"
proof (cases "type_func s")
  case (Inl e)
  then show ?thesis by (cases e) (simp_all add: get_value_def)
next
  case (Inr v)
  then show ?thesis by (auto simp: get_value_def)
qed

lemma store_tpf_filename:
  assumes "store L f s ns = Returned ns'"
  shows "tpf_filename ns' = (if f = Flag_tpf_filename then Some s else tpf_filename ns)"
  using assms by (cases f) (auto simp: get_value_Returned)

lemma consume_tpf_filename:
  "consume L xs ns = Returned ns' \<Longrightarrow>
     (tpf_filename ns' = None \<longleftrightarrow> tpf_filename ns = None \<and> Flag_tpf_filename \<notin> flag_of ` set xs)"
proof (induction xs arbitrary: ns)
  case Nil
  then show ?case by simp
next
  case (Cons x xs)
  from Cons.prems obtain f s ns1 where f: "flag_of x = f"
    and a: "store L f s ns = Returned ns1"
    and b: "consume L xs ns1 = Returned ns'"
    by (rule consume_Cons_Returned)
  from Cons.IH [OF b] store_tpf_filename [OF a] f show ?case by auto
qed

lemma convert_defaults_tpf_filename:
  "convert_defaults L ds ns = Returned ns' \<Longrightarrow> Flag_tpf_filename \<notin> fst ` set ds \<Longrightarrow>
     tpf_filename ns' = tpf_filename ns"
proof (induction ds arbitrary: ns)
  case Nil
  then show ?case by simp
next
  case (Cons d ds)
  obtain f s where d: "d = (f, s)" by (cases d)
  from Cons.prems(1) obtain ns1 where a: "store L f s ns = Returned ns1"
    and b: "convert_defaults L ds ns1 = Returned ns'"
    unfolding d by (rule convert_defaults_Cons_Returned)
  from Cons.IH [OF b] Cons.prems(2) store_tpf_filename [OF a] show ?case
    unfolding d by auto
qed

lemma string_defaults_flags:
  "fst ` set string_defaults =
     {Flag_survey, Flag_plot_file, Flag_figsize_str, Flag_colors_str, Flag_lws_str,
      Flag_zorders_str, Flag_marker_kwargs_str, Flag_gaia_dr2_kwargs_str, Flag_vsx_kwargs_str}"
  by (simp add: string_defaults_def)

lemma parse_args_tpf_filename:
  assumes "parse_args L argv = Returned args"
  shows "tpf_filename args = None \<longleftrightarrow> Flag_tpf_filename \<notin> flag_of ` set argv"
proof -
  let ?ds = "filter (\<lambda>d. fst d \<notin> flag_of ` set argv) string_defaults"
  from assms obtain ns1 where a: "consume L argv (parser_defaults L) = Returned ns1"
    and b: "convert_defaults L ?ds ns1 = Returned args"
    by (rule parse_args_Returned)
  have "Flag_tpf_filename \<notin> fst ` set ?ds"
    using string_defaults_flags by auto
  from convert_defaults_tpf_filename [OF b this]
  have "tpf_filename args = tpf_filename ns1" .
  moreover have "tpf_filename (parser_defaults L) = None"
    by (simp add: parser_defaults_def)
  ultimately show ?thesis
    using consume_tpf_filename [OF a] by simp
qed

text \<open>How the main block comes to call the plotting function.\<close>

lemma acquire_tpf_Returned:
  assumes "acquire_tpf L W v0 = (es, Returned (t, v))"
  shows "v = (if tpf_filename v0 = None
              then v0\<lparr>shrink := float_mul L (shrink v0) (float_literal L ''0.8''),
                      title := Some ''XZ Cyg : TESS : Sector 14''\<rparr>
              else v0)"
proof (cases "tpf_filename v0")
  case None
  with assms show ?thesis
    by (cases "lk_search_tesscut_download W") (auto simp: acquire_tpf_def)
next
  case (Some fname)
  with assms show ?thesis
    by (cases "lk_open W fname")
       (auto simp: acquire_tpf_def check_file_exists_def)
qed

lemma delegated_Some:
  assumes "delegated (main_after_parse L W args) = Some r"
  shows "\<exists>es t v. acquire_tpf L W (read_args L args) = (es, Returned (t, v)) \<and>
           snd (tess_check L t (tpf_filename v)) = Returned () \<and>
           r = km1_kwargs (call_kwargs t v) \<and>
           ending (main_after_parse L W args) =
             (case mkpy3_tpf_overlay_v4 W r of Inl e \<Rightarrow> Raised e | Inr ax \<Rightarrow> Returned ())"
proof -
  obtain es res where a: "acquire_tpf L W (read_args L args) = (es, res)"
    by (cases "acquire_tpf L W (read_args L args)")
  show ?thesis
  proof (cases res)
    case (Returned tv)
    obtain t v where tv: "tv = (t, v)" by (cases tv)
    obtain es' res' where c: "tess_check L t (tpf_filename v) = (es', res')"
      by (cases "tess_check L t (tpf_filename v)")
    from assms a Returned tv c show ?thesis
      by (cases res'; cases "mkpy3_tpf_overlay_v4 W (km1_kwargs (call_kwargs t v))")
         (auto simp: main_after_parse_def mkpy3_tess_tpf_overlay_v3_def)
  next
    case (Raised e)
    with assms a show ?thesis by (simp add: main_after_parse_def)
  next
    case (SysExit n)
    with assms a show ?thesis by (simp add: main_after_parse_def)
  qed
qed

text \<open>
  What the run prints and what it hands to \<open>mkpy3_tpf_overlay_v4\<close> do not depend on
  that function; the way the run ends is what the function makes of the arguments.
\<close>

lemma main_after_parse_any_delegate:
  "events (main_after_parse L (W\<lparr>mkpy3_tpf_overlay_v4 := d\<rparr>) args) =
     events (main_after_parse L W args) \<and>
   delegated (main_after_parse L (W\<lparr>mkpy3_tpf_overlay_v4 := d\<rparr>) args) =
     delegated (main_after_parse L W args)"
proof -
  have a: "acquire_tpf L (W\<lparr>mkpy3_tpf_overlay_v4 := d\<rparr>) (read_args L args) =
           acquire_tpf L W (read_args L args)"
    by (simp add: acquire_tpf_def check_file_exists_def split: option.split)
  obtain es res where b: "acquire_tpf L W (read_args L args) = (es, res)"
    by (cases "acquire_tpf L W (read_args L args)")
  show ?thesis
  proof (cases res)
    case (Returned tv)
    obtain t v where tv: "tv = (t, v)" by (cases tv)
    obtain es' res' where c: "tess_check L t (tpf_filename v) = (es', res')"
      by (cases "tess_check L t (tpf_filename v)")
    show ?thesis
      unfolding main_after_parse_def a b Returned tv
      using c
      by (cases res'; cases "mkpy3_tpf_overlay_v4 W (km1_kwargs (call_kwargs t v))";
          cases "d (km1_kwargs (call_kwargs t v))")
         (simp_all add: mkpy3_tess_tpf_overlay_v3_def)
  next
    case (Raised e)
    show ?thesis unfolding main_after_parse_def a b Raised by simp
  next
    case (SysExit n)
    show ?thesis unfolding main_after_parse_def a b SysExit by simp
  qed
qed

lemma main_block_any_delegate:
  assumes "delegated (main_block L W argv) = Some r"
  shows "delegated (main_block L (W\<lparr>mkpy3_tpf_overlay_v4 := d\<rparr>) argv) = Some r \<and>
         events (main_block L (W\<lparr>mkpy3_tpf_overlay_v4 := d\<rparr>) argv) =
           events (main_block L W argv) \<and>
         ending (main_block L (W\<lparr>mkpy3_tpf_overlay_v4 := d\<rparr>) argv) =
           (case d r of Inl e \<Rightarrow> Raised e | Inr ax \<Rightarrow> Returned ())"
proof (cases "parse_args L argv")
  case (Returned args)
  let ?W = "W\<lparr>mkpy3_tpf_overlay_v4 := d\<rparr>"
  have m: "main_block L W argv = main_after_parse L W args"
    "main_block L ?W argv = main_after_parse L ?W args"
    using Returned by (simp_all add: main_block_def)
  from assms main_after_parse_any_delegate [where L = L and W = W and d = d and args = args]
  have s: "delegated (main_after_parse L ?W args) = Some r"
    and e: "events (main_after_parse L ?W args) = events (main_after_parse L W args)"
    unfolding m by simp_all
  from delegated_Some [OF s]
  have "ending (main_after_parse L ?W args) =
          (case d r of Inl e \<Rightarrow> Raised e | Inr ax \<Rightarrow> Returned ())"
    by auto
  with s e show ?thesis unfolding m by simp
next
  case (Raised e)
  with assms show ?thesis by (simp add: main_block_def)
next
  case (SysExit n)
  with assms show ?thesis by (simp add: main_block_def)
qed

lemma main_block_calls_delegate:
  assumes "delegated (main_block L W argv) = Some r"
  shows "ending (main_block L W argv) =
           (case mkpy3_tpf_overlay_v4 W r of Inl e \<Rightarrow> Raised e | Inr ax \<Rightarrow> Returned ())"
proof (cases "parse_args L argv")
  case (Returned args)
  with assms delegated_Some [of L W args r] show ?thesis
    by (auto simp: main_block_def)
next
  case (Raised e)
  with assms show ?thesis by (simp add: main_block_def)
next
  case (SysExit n)
  with assms show ?thesis by (simp add: main_block_def)
qed

text \<open>The main block with the call of the plotting function written out.\<close>

lemma main_after_parse_call:
  "main_after_parse L W args =
     (case acquire_tpf L W (read_args L args) of
        (es, Raised e) \<Rightarrow> \<lparr>events = es, delegated = None, ending = Raised e\<rparr>
      | (es, SysExit n) \<Rightarrow> \<lparr>events = es, delegated = None, ending = SysExit n\<rparr>
      | (es, Returned (t, v)) \<Rightarrow>
          (case tess_check L t (tpf_filename v) of
             (es', Raised e) \<Rightarrow> \<lparr>events = es @ es', delegated = None, ending = Raised e\<rparr>
           | (es', SysExit n) \<Rightarrow> \<lparr>events = es @ es', delegated = None, ending = SysExit n\<rparr>
           | (es', Returned u) \<Rightarrow>
               \<lparr>events = es @ es',
                delegated = Some (km1_kwargs (call_kwargs t v)),
                ending = (case mkpy3_tpf_overlay_v4 W (km1_kwargs (call_kwargs t v)) of
                            Inl e \<Rightarrow> Raised e
                          | Inr ax \<Rightarrow> Returned ())\<rparr>))"
  by (simp add: main_after_parse_def mkpy3_tess_tpf_overlay_v3_def Let_def
      split: prod.splits outcome.splits sum.splits)

text \<open>
  C9. In a run that comes to call \<open>mkpy3_tpf_overlay_v4\<close>, with the arguments \<open>r\<close>:
  the namespace has no \<open>tpf_filename\<close> exactly when the command line has no
  \<open>--tpf_filename\<close>; then the \<open>shrink\<close> of \<open>r\<close> is the product of the parsed
  \<open>shrink\<close> and \<open>0.8\<close> and the \<open>title\<close> of \<open>r\<close> is
  \<open>XZ Cyg : TESS : Sector 14\<close>, whatever \<open>--title\<close> was; otherwise both are as
  parsed. The run ends as \<open>mkpy3_tpf_overlay_v4\<close> applied to \<open>r\<close> ends, and this is
  so whatever function stands for \<open>mkpy3_tpf_overlay_v4\<close>: it is \<open>r\<close> that the
  function is given.
\<close>

theorem default_target_shrink_and_title:
  assumes "parse_args L argv = Returned args"
    and "delegated (main_block L W argv) = Some r"
  shows "(tpf_filename args = None \<longleftrightarrow> Flag_tpf_filename \<notin> flag_of ` set argv) \<and>
         (Flag_tpf_filename \<notin> flag_of ` set argv \<longrightarrow>
            shrink r = float_mul L (shrink args) (float_literal L ''0.8'') \<and>
            title r = Some ''XZ Cyg : TESS : Sector 14'') \<and>
         (Flag_tpf_filename \<in> flag_of ` set argv \<longrightarrow>
            shrink r = shrink args \<and> title r = title args) \<and>
         ending (main_block L W argv) =
           (case mkpy3_tpf_overlay_v4 W r of Inl e \<Rightarrow> Raised e | Inr ax \<Rightarrow> Returned ()) \<and>
         (\<forall>d. delegated (main_block L (W\<lparr>mkpy3_tpf_overlay_v4 := d\<rparr>) argv) = Some r \<and>
              ending (main_block L (W\<lparr>mkpy3_tpf_overlay_v4 := d\<rparr>) argv) =
                (case d r of Inl e \<Rightarrow> Raised e | Inr ax \<Rightarrow> Returned ()))"
proof -
  note n = parse_args_tpf_filename [OF assms(1)]
  from assms have "delegated (main_after_parse L W args) = Some r"
    by (simp add: main_block_def)
  from delegated_Some [OF this] obtain es t v
    where a: "acquire_tpf L W (read_args L args) = (es, Returned (t, v))"
      and r: "r = km1_kwargs (call_kwargs t v)" by blast
  have f: "shrink r = shrink v \<and> title r = title v"
    unfolding r by (simp add: km1_kwargs_def call_kwargs_def)
  have g: "tpf_filename (read_args L args) = tpf_filename args \<and>
           shrink (read_args L args) = shrink args \<and>
           title (read_args L args) = title args"
    by (simp add: read_args_def)
  from acquire_tpf_Returned [OF a] f g n
  have vals: "(tpf_filename args = None \<longleftrightarrow> Flag_tpf_filename \<notin> flag_of ` set argv) \<and>
         (Flag_tpf_filename \<notin> flag_of ` set argv \<longrightarrow>
            shrink r = float_mul L (shrink args) (float_literal L ''0.8'') \<and>
            title r = Some ''XZ Cyg : TESS : Sector 14'') \<and>
         (Flag_tpf_filename \<in> flag_of ` set argv \<longrightarrow>
            shrink r = shrink args \<and> title r = title args)" by auto
  note link = main_block_calls_delegate [OF assms(2)]
  have every: "delegated (main_block L (W\<lparr>mkpy3_tpf_overlay_v4 := d\<rparr>) argv) = Some r \<and>
              ending (main_block L (W\<lparr>mkpy3_tpf_overlay_v4 := d\<rparr>) argv) =
                (case d r of Inl e \<Rightarrow> Raised e | Inr ax \<Rightarrow> Returned ())" for d
    using main_block_any_delegate [OF assms(2), of d] by blast
  from vals link every show ?thesis by blast
qed

lemmas model_defs =
  main_block_def main_after_parse_def parse_args_def string_defaults_def parser_defaults_def
  symbolic_lib_def demo_world_def get_value_def read_args_def acquire_tpf_def tess_check_def
  try_body_def call_kwargs_def km1_kwargs_def mkpy3_tess_tpf_overlay_v3_def
  check_file_exists_def main_globals_def import_globals_def str2bool_def Let_def

lemma demo_value_words:
  "argparse_value_word ''tess.fits'' \<and> argparse_value_word ''kepler.fits'' \<and>
   argparse_value_word ''mine'' \<and> argparse_value_word ''0.5'' \<and>
   argparse_value_word ''150.0'' \<and> argparse_value_word ''-3.5'' \<and>
   \<not> argparse_value_word ''-1e5''"
  by (simp add: argparse_value_word_def negative_number_def names_option_def is_digit_def)

lemma demo_default_run:
  "\<exists>args r. parse_args symbolic_lib [] = Returned args \<and>
     delegated (main_block symbolic_lib demo_world []) = Some r \<and>
     shrink args = ''1.0''"
  by (simp add: model_defs)

lemma demo_file_run:
  "\<exists>args r. parse_args symbolic_lib
       [Spaced Flag_tpf_filename ''tess.fits'', Joined Flag_title ''mine'',
        Spaced Flag_shrink ''0.5'']
       = Returned args \<and>
     delegated (main_block symbolic_lib demo_world
       [Spaced Flag_tpf_filename ''tess.fits'', Joined Flag_title ''mine'',
        Spaced Flag_shrink ''0.5''])
       = Some r \<and>
     shrink args = ''0.5'' \<and> title args = Some ''mine''"
  using demo_value_words by (simp add: model_defs)

theorem default_target_shrink_and_title_witness:
  "(\<exists>args r. parse_args symbolic_lib [] = Returned args \<and>
      delegated (main_block symbolic_lib demo_world []) = Some r \<and>
      shrink args = ''1.0'' \<and>
      shrink r = ''1.0*0.8'' \<and> title r = Some ''XZ Cyg : TESS : Sector 14'' \<and>
      ending (main_block symbolic_lib
                (demo_world\<lparr>mkpy3_tpf_overlay_v4 :=
                   (\<lambda>k. if shrink k = ''1.0*0.8'' then Inl ValueError else Inr PNone)\<rparr>) [])
        = Raised ValueError) \<and>
   (\<exists>args r. parse_args symbolic_lib
        [Spaced Flag_tpf_filename ''tess.fits'', Joined Flag_title ''mine'',
         Spaced Flag_shrink ''0.5'']
        = Returned args \<and>
      delegated (main_block symbolic_lib demo_world
        [Spaced Flag_tpf_filename ''tess.fits'', Joined Flag_title ''mine'',
         Spaced Flag_shrink ''0.5''])
        = Some r \<and>
      shrink r = ''0.5'' \<and> title r = Some ''mine'')"
proof -
  let ?d = "\<lambda>k :: (string, string) request.
              if shrink k = ''1.0*0.8'' then Inl ValueError else (Inr PNone :: exc + string pyval)"
  from demo_default_run obtain args r
    where a: "parse_args symbolic_lib [] = Returned args"
      and b: "delegated (main_block symbolic_lib demo_world []) = Some r"
      and c: "shrink args = ''1.0''" by blast
  have m: "float_mul symbolic_lib ''1.0'' (float_literal symbolic_lib ''0.8'') = ''1.0*0.8''"
    by (simp add: symbolic_lib_def)
  note t = default_target_shrink_and_title [OF a b]
  from t c m
  have v: "shrink r = ''1.0*0.8'' \<and> title r = Some ''XZ Cyg : TESS : Sector 14''" by simp
  from t have "ending (main_block symbolic_lib (demo_world\<lparr>mkpy3_tpf_overlay_v4 := ?d\<rparr>) []) =
                 (case ?d r of Inl e \<Rightarrow> Raised e | Inr ax \<Rightarrow> Returned ())" by blast
  with v have e: "ending (main_block symbolic_lib (demo_world\<lparr>mkpy3_tpf_overlay_v4 := ?d\<rparr>) [])
                    = Raised ValueError" by simp
  from a b c v e have first: "\<exists>args r. parse_args symbolic_lib [] = Returned args \<and>
      delegated (main_block symbolic_lib demo_world []) = Some r \<and>
      shrink args = ''1.0'' \<and>
      shrink r = ''1.0*0.8'' \<and> title r = Some ''XZ Cyg : TESS : Sector 14'' \<and>
      ending (main_block symbolic_lib (demo_world\<lparr>mkpy3_tpf_overlay_v4 := ?d\<rparr>) [])
        = Raised ValueError" by blast
  let ?argv = "[Spaced Flag_tpf_filename ''tess.fits'', Joined Flag_title ''mine'',
                Spaced Flag_shrink ''0.5'']"
  from demo_file_run obtain args' r'
    where a': "parse_args symbolic_lib ?argv = Returned args'"
      and b': "delegated (main_block symbolic_lib demo_world ?argv) = Some r'"
      and c': "shrink args' = ''0.5'' \<and> title args' = Some ''mine''" by blast
  from default_target_shrink_and_title [OF a' b'] c'
  have "shrink r' = ''0.5'' \<and> title r' = Some ''mine''" by simp
  with a' b' have second: "\<exists>args r. parse_args symbolic_lib ?argv = Returned args \<and>
      delegated (main_block symbolic_lib demo_world ?argv) = Some r \<and>
      shrink r = ''0.5'' \<and> title r = Some ''mine''" by blast
  from first second show ?thesis by blast
qed

text \<open>The values of \<open>--percentile\<close> and \<open>--shrink\<close> touch nothing else.\<close>

lemma store_keeps_floats:
  assumes "store L f x ns = Returned ns'"
    and "f \<noteq> Flag_percentile" and "f \<noteq> Flag_shrink"
  shows "store L f x (ns\<lparr>percentile := p, shrink := s\<rparr>) =
           Returned (ns'\<lparr>percentile := p, shrink := s\<rparr>)"
  using assms by (cases f) (auto simp: get_value_Returned)

lemma convert_defaults_keeps_floats:
  assumes "convert_defaults L ds ns = Returned ns'"
    and "Flag_percentile \<notin> fst ` set ds" and "Flag_shrink \<notin> fst ` set ds"
  shows "convert_defaults L ds (ns\<lparr>percentile := p, shrink := s\<rparr>) =
           Returned (ns'\<lparr>percentile := p, shrink := s\<rparr>)"
  using assms
proof (induction ds arbitrary: ns)
  case Nil
  then show ?case by simp
next
  case (Cons d ds)
  obtain f x where d: "d = (f, x)" by (cases d)
  from Cons.prems(1) obtain ns1 where a: "store L f x ns = Returned ns1"
    and b: "convert_defaults L ds ns1 = Returned ns'"
    unfolding d by (rule convert_defaults_Cons_Returned)
  have n: "f \<noteq> Flag_percentile" "f \<noteq> Flag_shrink"
    using Cons.prems(2,3) unfolding d by auto
  have "convert_defaults L ds (ns1\<lparr>percentile := p, shrink := s\<rparr>) =
          Returned (ns'\<lparr>percentile := p, shrink := s\<rparr>)"
    using Cons.IH [OF b] Cons.prems(2,3) by simp
  with store_keeps_floats [OF a n] show ?case unfolding d by simp
qed

lemma parse_args_floats:
  assumes "parse_args L argv = Returned args"
    and "flag_of ` set opts = {Flag_percentile, Flag_shrink}"
    and "\<And>ns. consume L opts ns = Returned (ns\<lparr>percentile := p, shrink := s\<rparr>)"
  shows "parse_args L (argv @ opts) = Returned (args\<lparr>percentile := p, shrink := s\<rparr>)"
proof -
  let ?ds = "filter (\<lambda>d. fst d \<notin> flag_of ` set argv) string_defaults"
  have fl: "filter (\<lambda>d. fst d \<notin> flag_of ` set (argv @ opts)) string_defaults = ?ds"
    by (rule filter_cong) (auto simp: string_defaults_def image_Un assms(2))
  have nf: "Flag_percentile \<notin> fst ` set ?ds" "Flag_shrink \<notin> fst ` set ?ds"
    using string_defaults_flags by auto
  from assms(1) obtain ns1 where a: "consume L argv (parser_defaults L) = Returned ns1"
    and b: "convert_defaults L ?ds ns1 = Returned args"
    by (rule parse_args_Returned)
  have c: "consume L (argv @ opts) (parser_defaults L) =
             Returned (ns1\<lparr>percentile := p, shrink := s\<rparr>)"
    unfolding consume_append a by (simp add: assms(3))
  show ?thesis
    unfolding parse_args_def fl c
    using convert_defaults_keeps_floats [OF b nf] by simp
qed

lemma parse_args_not_value_word:
  assumes "parse_args L argv = Returned args" and "\<not> value_word L w"
  shows "parse_args L (argv @ [Spaced f w]) = SysExit 2"
proof -
  from assms(1) obtain ns1 where a: "consume L argv (parser_defaults L) = Returned ns1"
    by (rule parse_args_Returned)
  have "consume L (argv @ [Spaced f w]) (parser_defaults L) = SysExit 2"
    unfolding consume_append a using assms(2) by simp
  then show ?thesis by (simp add: parse_args_def)
qed

lemma acquire_tpf_floats:
  "acquire_tpf L W (read_args L (args\<lparr>percentile := p, shrink := s\<rparr>)) =
     (case acquire_tpf L W (read_args L args) of
        (es, Returned (t, v)) \<Rightarrow>
          (es, Returned (t, v\<lparr>percentile := p,
                               shrink := (if tpf_filename args = None
                                          then float_mul L s (float_literal L ''0.8'')
                                          else s)\<rparr>))
      | (es, Raised e) \<Rightarrow> (es, Raised e)
      | (es, SysExit n) \<Rightarrow> (es, SysExit n))"
proof (cases "tpf_filename args")
  case None
  then show ?thesis
    by (cases "lk_search_tesscut_download W") (simp_all add: acquire_tpf_def read_args_def)
next
  case (Some fname)
  then show ?thesis
    by (cases "lk_open W fname")
       (simp_all add: acquire_tpf_def read_args_def check_file_exists_def)
qed

lemma acquire_tpf_keeps_filename:
  assumes "acquire_tpf L W (read_args L args) = (es, Returned (t, v))"
  shows "tpf_filename v = tpf_filename args"
  using acquire_tpf_Returned [OF assms] by (auto simp: read_args_def)

lemma main_after_parse_floats:
  "events (main_after_parse L W (args\<lparr>percentile := p, shrink := s\<rparr>)) =
     events (main_after_parse L W args) \<and>
   delegated (main_after_parse L W (args\<lparr>percentile := p, shrink := s\<rparr>)) =
     map_option
       (\<lambda>r. r\<lparr>percentile := p,
               shrink := (if tpf_filename args = None
                          then float_mul L s (float_literal L ''0.8'') else s)\<rparr>)
       (delegated (main_after_parse L W args)) \<and>
   (delegated (main_after_parse L W args) = None \<longrightarrow>
      ending (main_after_parse L W (args\<lparr>percentile := p, shrink := s\<rparr>)) =
        ending (main_after_parse L W args))"
proof -
  obtain es res where a: "acquire_tpf L W (read_args L args) = (es, res)"
    by (cases "acquire_tpf L W (read_args L args)")
  show ?thesis
  proof (cases res)
    case (Returned tv)
    obtain t v where tv: "tv = (t, v)" by (cases tv)
    obtain es' res' where c: "tess_check L t (tpf_filename v) = (es', res')"
      by (cases "tess_check L t (tpf_filename v)")
    show ?thesis
      unfolding main_after_parse_call acquire_tpf_floats a Returned tv
      using c by (cases res') (simp_all add: call_kwargs_def km1_kwargs_def)
  next
    case (Raised e)
    show ?thesis
      unfolding main_after_parse_call acquire_tpf_floats a Raised by simp
  next
    case (SysExit n)
    show ?thesis
      unfolding main_after_parse_call acquire_tpf_floats a SysExit by simp
  qed
qed

text \<open>
  C8, as amended. When a command line parses, the command line with \<open>--percentile\<close>
  and \<open>--shrink\<close> added parses too, for any two texts \<open>sp\<close> and \<open>ss\<close> that
  \<open>float\<close> accepts, whatever the values \<open>p\<close> and \<open>s\<close> it makes of them, when the
  options are written \<open>--percentile=sp --shrink=ss\<close>, or in two words each with
  texts the parser takes for values. The namespace differs in these two values only;
  the run prints the same and comes to call \<open>mkpy3_tpf_overlay_v4\<close> exactly when the
  first run does, with the same arguments except that \<open>percentile\<close> is \<open>p\<close> and
  \<open>shrink\<close> is \<open>s\<close> (times \<open>0.8\<close> when there is no \<open>--tpf_filename\<close>); these
  are the arguments the function is given, whatever function it is; a run that does
  not come to the call ends as the first run does. An option written in two words with
  a text the parser takes for an option ends the process with status 2.
\<close>

theorem percentile_and_shrink_pass_unchecked:
  assumes "parse_args L argv = Returned args"
    and "float_of_str L sp = Inr p" and "float_of_str L ss = Inr s"
    and "opts = [Joined Flag_percentile sp, Joined Flag_shrink ss] \<or>
         (value_word L sp \<and> value_word L ss \<and>
          opts = [Spaced Flag_percentile sp, Spaced Flag_shrink ss])"
  shows "parse_args L (argv @ opts) = Returned (args\<lparr>percentile := p, shrink := s\<rparr>) \<and>
         events (main_block L W (argv @ opts)) = events (main_block L W argv) \<and>
         delegated (main_block L W (argv @ opts)) =
           map_option
             (\<lambda>r. r\<lparr>percentile := p,
                     shrink := (if Flag_tpf_filename \<in> flag_of ` set argv then s
                                else float_mul L s (float_literal L ''0.8''))\<rparr>)
             (delegated (main_block L W argv)) \<and>
         (delegated (main_block L W argv) = None \<longrightarrow>
            ending (main_block L W (argv @ opts)) = ending (main_block L W argv)) \<and>
         (\<forall>r. delegated (main_block L W (argv @ opts)) = Some r \<longrightarrow>
            percentile r = p \<and>
            shrink r = (if Flag_tpf_filename \<in> flag_of ` set argv then s
                        else float_mul L s (float_literal L ''0.8'')) \<and>
            (\<forall>d. ending (main_block L (W\<lparr>mkpy3_tpf_overlay_v4 := d\<rparr>) (argv @ opts)) =
                   (case d r of Inl e \<Rightarrow> Raised e | Inr ax \<Rightarrow> Returned ()))) \<and>
         (\<not> value_word L sp \<longrightarrow>
            parse_args L (argv @ [Spaced Flag_percentile sp]) = SysExit 2) \<and>
         (\<not> value_word L ss \<longrightarrow>
            parse_args L (argv @ [Spaced Flag_shrink ss]) = SysExit 2)"
proof -
  let ?argv' = "argv @ opts"
  let ?sh = "if Flag_tpf_filename \<in> flag_of ` set argv then s
             else float_mul L s (float_literal L ''0.8'')"
  have fo: "flag_of ` set opts = {Flag_percentile, Flag_shrink}"
    using assms(4) by auto
  have co: "consume L opts ns = Returned (ns\<lparr>percentile := p, shrink := s\<rparr>)" for ns
    using assms(2,3,4) by (auto simp: get_value_def)
  note pa = parse_args_floats [OF assms(1) fo co]
  have m: "main_block L W argv = main_after_parse L W args"
    using assms(1) by (simp add: main_block_def)
  have m': "main_block L W ?argv' = main_after_parse L W (args\<lparr>percentile := p, shrink := s\<rparr>)"
    using pa by (simp add: main_block_def)
  have n: "(if tpf_filename args = None then float_mul L s (float_literal L ''0.8'') else s) = ?sh"
    using parse_args_tpf_filename [OF assms(1)] by simp
  from main_after_parse_floats [where L = L and W = W and args = args and p = p and s = s]
  have ev: "events (main_block L W ?argv') = events (main_block L W argv)"
    and de: "delegated (main_block L W ?argv') =
               map_option (\<lambda>r. r\<lparr>percentile := p, shrink := ?sh\<rparr>) (delegated (main_block L W argv))"
    and en: "delegated (main_block L W argv) = None \<longrightarrow>
               ending (main_block L W ?argv') = ending (main_block L W argv)"
    unfolding m m' n by blast+
  have pass: "percentile r = p \<and> shrink r = ?sh \<and>
              (\<forall>d. ending (main_block L (W\<lparr>mkpy3_tpf_overlay_v4 := d\<rparr>) ?argv') =
                     (case d r of Inl e \<Rightarrow> Raised e | Inr ax \<Rightarrow> Returned ()))"
    if r: "delegated (main_block L W ?argv') = Some r" for r
  proof -
    from r de obtain r0 where "r = r0\<lparr>percentile := p, shrink := ?sh\<rparr>" by auto
    then have "percentile r = p \<and> shrink r = ?sh" by simp
    with main_block_any_delegate [OF r] show ?thesis by blast
  qed
  have nv: "\<not> value_word L w \<longrightarrow> parse_args L (argv @ [Spaced f w]) = SysExit 2" for f w
    using parse_args_not_value_word [OF assms(1)] by blast
  from pa ev de en pass nv show ?thesis by blast
qed

lemma demo_floats:
  "float_of_str symbolic_lib ''150.0'' = Inr ''150.0'' \<and>
   float_of_str symbolic_lib ''-3.5'' = Inr ''-3.5'' \<and>
   float_of_str symbolic_lib ''-1e5'' = Inr ''-1e5'' \<and>
   value_word symbolic_lib ''150.0'' \<and> value_word symbolic_lib ''-3.5'' \<and>
   \<not> value_word symbolic_lib ''-1e5'' \<and>
   float_mul symbolic_lib ''-3.5'' (float_literal symbolic_lib ''0.8'') = ''-3.5*0.8''"
  using demo_value_words by (simp add: symbolic_lib_def)

theorem percentile_and_shrink_pass_unchecked_witness:
  "\<exists>args r r'.
     parse_args symbolic_lib [] = Returned args \<and>
     parse_args symbolic_lib [Spaced Flag_percentile ''150.0'', Spaced Flag_shrink ''-3.5''] =
       Returned (args\<lparr>percentile := ''150.0'', shrink := ''-3.5''\<rparr>) \<and>
     delegated (main_block symbolic_lib demo_world []) = Some r \<and>
     delegated (main_block symbolic_lib demo_world
                  [Spaced Flag_percentile ''150.0'', Spaced Flag_shrink ''-3.5'']) = Some r' \<and>
     percentile r' = ''150.0'' \<and> shrink r' = ''-3.5*0.8'' \<and>
     parse_args symbolic_lib [Spaced Flag_shrink ''-1e5''] = SysExit 2"
proof -
  let ?opts = "[Spaced Flag_percentile ''150.0'', Spaced Flag_shrink ''-3.5'']"
  from demo_default_run obtain args r
    where a: "parse_args symbolic_lib [] = Returned args"
      and b: "delegated (main_block symbolic_lib demo_world []) = Some r" by blast
  from demo_floats have c: "float_of_str symbolic_lib ''150.0'' = Inr ''150.0''"
    and d: "float_of_str symbolic_lib ''-3.5'' = Inr ''-3.5''"
    and e: "float_of_str symbolic_lib ''-1e5'' = Inr ''-1e5''"
    and n: "\<not> value_word symbolic_lib ''-1e5''"
    and m: "float_mul symbolic_lib ''-3.5'' (float_literal symbolic_lib ''0.8'') = ''-3.5*0.8''"
    by simp_all
  have o: "?opts = [Joined Flag_percentile ''150.0'', Joined Flag_shrink ''-3.5''] \<or>
           (value_word symbolic_lib ''150.0'' \<and> value_word symbolic_lib ''-3.5'' \<and>
            ?opts = [Spaced Flag_percentile ''150.0'', Spaced Flag_shrink ''-3.5''])"
    using demo_floats by simp
  have o': "[Joined Flag_percentile ''150.0'', Joined Flag_shrink ''-1e5''] =
              [Joined Flag_percentile ''150.0'', Joined Flag_shrink ''-1e5''] \<or>
           (value_word symbolic_lib ''150.0'' \<and> value_word symbolic_lib ''-1e5'' \<and>
            [Joined Flag_percentile ''150.0'', Joined Flag_shrink ''-1e5''] =
              [Spaced Flag_percentile ''150.0'', Spaced Flag_shrink ''-1e5''])"
    by simp
  from percentile_and_shrink_pass_unchecked [OF a c d o, of demo_world] a b m
  have first: "parse_args symbolic_lib ([] @ ?opts) =
                 Returned (args\<lparr>percentile := ''150.0'', shrink := ''-3.5''\<rparr>) \<and>
               (\<exists>r'. delegated (main_block symbolic_lib demo_world ([] @ ?opts)) = Some r' \<and>
                     percentile r' = ''150.0'' \<and> shrink r' = ''-3.5*0.8'')"
    by auto
  from percentile_and_shrink_pass_unchecked [OF a c e o', of demo_world] n
  have "parse_args symbolic_lib ([] @ [Spaced Flag_shrink ''-1e5'']) = SysExit 2"
    by blast
  with first a b show ?thesis by auto
qed

text \<open>
  C8, as stated, fails: \<open>float\<close> accepts the text \<open>-1e5\<close>, a value of \<open>shrink\<close>
  below 0, but the command line \<open>--shrink -1e5\<close> does not parse; the parser takes the
  word \<open>-1e5\<close> for an option and ends the process with status 2.
\<close>

theorem percentile_and_shrink_counterexample:
  "float_of_str symbolic_lib ''-1e5'' = Inr ''-1e5'' \<and>
   parse_args symbolic_lib [Spaced Flag_shrink ''-1e5''] = SysExit 2 \<and>
   ending (main_block symbolic_lib demo_world [Spaced Flag_shrink ''-1e5'']) = SysExit 2 \<and>
   delegated (main_block symbolic_lib demo_world [Spaced Flag_shrink ''-1e5'']) = None"
  using demo_value_words by (simp add: model_defs)

lemma printed_text_append: "printed_text (es @ es') = printed_text es @ printed_text es'"
  by (induction es rule: printed_text.induct) simp_all

lemma not_tess_text:
  "contains (print (''^--- *** ERROR *** This file does not appear to be a TESS '' @
                    ''TargetPixelFile''))
            ''*** ERROR *** This file does not appear to be a TESS TargetPixelFile''"
  by (simp add: print_def nl_def)

lemma try_body_fails:
  assumes "(\<exists>e. path t = Inl e) \<or> (\<exists>e. mission t = Inl e) \<or>
           (\<exists>m. mission t = Inr m \<and> m \<noteq> PStr ''TESS'')"
  shows "\<exists>es e. try_body L t = (es, Some e)"
proof (cases "path t")
  case (Inl e)
  then show ?thesis by (simp add: try_body_def)
next
  case (Inr p)
  show ?thesis
  proof (cases "mission t")
    case (Inl e)
    with Inr show ?thesis by (cases p) (simp_all add: try_body_def)
  next
    case m: (Inr m)
    with assms Inr have "m \<noteq> PStr ''TESS''" by auto
    with Inr m show ?thesis by (cases p) (simp_all add: try_body_def)
  qed
qed

lemma tess_check_fails:
  assumes "(\<exists>e. path t = Inl e) \<or> (\<exists>e. mission t = Inl e) \<or>
           (\<exists>m. mission t = Inr m \<and> m \<noteq> PStr ''TESS'')"
  shows "\<exists>es. tess_check L t fn =
           (es @
            [Print (print (str_of_filename fn @ '' '' @ ''=tpf_filename'')),
             Print (print (''^--- *** ERROR *** This file does not appear to be a TESS '' @
                           ''TargetPixelFile'')),
             Print (print []),
             Print (print (''Bye...'' @ nl))],
            SysExit 1)"
proof -
  from try_body_fails [OF assms] obtain es e where "try_body L t = (es, Some e)" by blast
  then have "tess_check L t fn =
           (es @
            [Print (print (str_of_filename fn @ '' '' @ ''=tpf_filename'')),
             Print (print (''^--- *** ERROR *** This file does not appear to be a TESS '' @
                           ''TargetPixelFile'')),
             Print (print []),
             Print (print (''Bye...'' @ nl))],
            SysExit 1)"
    by (simp add: tess_check_def)
  then show ?thesis by blast
qed

text \<open>
  C7. In a run that has a target pixel file object \<open>t\<close>: when reading \<open>t.path\<close> or
  \<open>t.mission\<close> raises, or \<open>t.mission\<close> is not \<open>TESS\<close>, the run prints the text
  that the file does not appear to be a TESS TargetPixelFile, does not call the plotting
  function, and ends the process by \<open>sys.exit(1)\<close>.
\<close>

theorem not_tess_exits_with_status_1:
  assumes "parse_args L argv = Returned args"
    and "acquire_tpf L W (read_args L args) = (es, Returned (t, v))"
    and "(\<exists>e. path t = Inl e) \<or> (\<exists>e. mission t = Inl e) \<or>
         (\<exists>m. mission t = Inr m \<and> m \<noteq> PStr ''TESS'')"
  shows "ending (main_block L W argv) = SysExit 1 \<and>
         exit_status (ending (main_block L W argv)) = 1 \<and>
         delegated (main_block L W argv) = None \<and>
         (\<exists>s \<in> set (printed_text (events (main_block L W argv))).
            contains s ''*** ERROR *** This file does not appear to be a TESS TargetPixelFile'')"
proof -
  let ?diag = "print (''^--- *** ERROR *** This file does not appear to be a TESS '' @
                      ''TargetPixelFile'')"
  from tess_check_fails [OF assms(3)] obtain es0 where
    c: "tess_check L t (tpf_filename v) =
          (es0 @
           [Print (print (str_of_filename (tpf_filename v) @ '' '' @ ''=tpf_filename'')),
            Print ?diag, Print (print []), Print (print (''Bye...'' @ nl))],
           SysExit 1)" by blast
  have m: "main_block L W argv = main_after_parse L W args"
    using assms(1) by (simp add: main_block_def)
  have e: "ending (main_block L W argv) = SysExit 1"
    unfolding m main_after_parse_call assms(2) by (simp add: c)
  have d: "delegated (main_block L W argv) = None"
    unfolding m main_after_parse_call assms(2) by (simp add: c)
  have "events (main_block L W argv) =
          es @ es0 @
           [Print (print (str_of_filename (tpf_filename v) @ '' '' @ ''=tpf_filename'')),
            Print ?diag, Print (print []), Print (print (''Bye...'' @ nl))]"
    unfolding m main_after_parse_call assms(2) by (simp add: c)
  then have "printed_text (events (main_block L W argv)) =
          printed_text es @ printed_text es0 @
           [print (str_of_filename (tpf_filename v) @ '' '' @ ''=tpf_filename''),
            ?diag, print [], print (''Bye...'' @ nl)]"
    by (simp only: printed_text_append printed_text.simps)
  then have "?diag \<in> set (printed_text (events (main_block L W argv)))"
    by (simp only: set_append list.set Un_iff insert_iff) blast
  with not_tess_text
  have p: "\<exists>s \<in> set (printed_text (events (main_block L W argv))).
            contains s ''*** ERROR *** This file does not appear to be a TESS TargetPixelFile''"
    by blast
  from e have x: "exit_status (ending (main_block L W argv)) = 1" by simp
  from e x d p show ?thesis by blast
qed

lemma demo_kepler_run:
  "\<exists>args es t v.
     parse_args symbolic_lib [Joined Flag_tpf_filename ''kepler.fits''] = Returned args \<and>
     acquire_tpf symbolic_lib demo_world (read_args symbolic_lib args) = (es, Returned (t, v)) \<and>
     mission t = Inr (PStr ''Kepler'')"
  by (simp add: model_defs)

theorem not_tess_exits_with_status_1_witness:
  "ending (main_block symbolic_lib demo_world [Joined Flag_tpf_filename ''kepler.fits'']) = SysExit 1 \<and>
   exit_status (ending (main_block symbolic_lib demo_world [Joined Flag_tpf_filename ''kepler.fits'']))
     = 1 \<and>
   delegated (main_block symbolic_lib demo_world [Joined Flag_tpf_filename ''kepler.fits'']) = None \<and>
   (\<exists>s \<in> set (printed_text (events (main_block symbolic_lib demo_world
                 [Joined Flag_tpf_filename ''kepler.fits'']))).
      contains s ''*** ERROR *** This file does not appear to be a TESS TargetPixelFile'')"
proof -
  from demo_kepler_run obtain args es t v
    where a: "parse_args symbolic_lib [Joined Flag_tpf_filename ''kepler.fits''] = Returned args"
      and b: "acquire_tpf symbolic_lib demo_world (read_args symbolic_lib args)
                = (es, Returned (t, v))"
      and c: "mission t = Inr (PStr ''Kepler'')" by blast
  from c have "(\<exists>e. path t = Inl e) \<or> (\<exists>e. mission t = Inl e) \<or>
         (\<exists>m. mission t = Inr m \<and> m \<noteq> PStr ''TESS'')" by simp
  from not_tess_exits_with_status_1 [OF a b this] show ?thesis .
qed

text \<open>
  When \<open>lk.open\<close> itself raises, nothing catches the exception: the plotting function
  is not called and the interpreter ends the process with status 1.
\<close>

lemma unreadable_file_ends_run:
  assumes "parse_args L argv = Returned args"
    and "tpf_filename args = Some fname" and "lk_open W fname = Inl e"
  shows "ending (main_block L W argv) = Raised e \<and>
         exit_status (ending (main_block L W argv)) = 1 \<and>
         delegated (main_block L W argv) = None"
  using assms
  by (simp add: main_block_def main_after_parse_call acquire_tpf_def read_args_def
      check_file_exists_def)

text \<open>
  C4. On the empty command line \<open>survey\<close> is \<open>2MASS-J\<close>, \<open>percentile\<close> is \<open>99.5\<close>
  and \<open>plot_file\<close> is \<open>mkpy3_plot.png\<close>, as the keyword defaults of the plotting
  function have them, but \<open>cmap\<close> is \<open>None\<close>, where the keyword default is
  \<open>gray_r\<close>; and \<open>None\<close> is what the plotting function is called with.
\<close>

theorem cmap_default_is_None:
  assumes "parse_args L [] = Returned args"
  shows "survey args = ''2MASS-J'' \<and> survey (signature_defaults L) = ''2MASS-J'' \<and>
         percentile args = float_literal L ''99.5'' \<and>
         percentile (signature_defaults L) = float_literal L ''99.5'' \<and>
         plot_file args = ''mkpy3_plot.png'' \<and>
         plot_file (signature_defaults L) = ''mkpy3_plot.png'' \<and>
         cmap args = None \<and> cmap (signature_defaults L) = Some ''gray_r'' \<and>
         (\<forall>W r. delegated (main_block L W []) = Some r \<longrightarrow> cmap r = None)"
proof -
  have a: "survey args = ''2MASS-J'' \<and> percentile args = float_literal L ''99.5'' \<and>
           plot_file args = ''mkpy3_plot.png'' \<and> cmap args = None"
    using assms
    by (auto simp: parse_args_def string_defaults_def parser_defaults_def get_value_Returned
             split: outcome.splits)
  have b: "survey (signature_defaults L) = ''2MASS-J'' \<and>
           percentile (signature_defaults L) = float_literal L ''99.5'' \<and>
           plot_file (signature_defaults L) = ''mkpy3_plot.png'' \<and>
           cmap (signature_defaults L) = Some ''gray_r''"
    by (simp add: signature_defaults_def)
  have c: "cmap r = None" if "delegated (main_block L W []) = Some r" for W r
  proof -
    from that assms have "delegated (main_after_parse L W args) = Some r"
      by (simp add: main_block_def)
    from delegated_Some [OF this] obtain es t v
      where q: "acquire_tpf L W (read_args L args) = (es, Returned (t, v))"
        and r: "r = km1_kwargs (call_kwargs t v)" by blast
    have "cmap r = cmap v" unfolding r by (simp add: km1_kwargs_def call_kwargs_def)
    also have "\<dots> = cmap (read_args L args)"
      using acquire_tpf_Returned [OF q] by (simp split: if_splits)
    also have "\<dots> = cmap args" by (simp add: read_args_def)
    finally show ?thesis using a by simp
  qed
  from a b c show ?thesis by blast
qed

theorem cmap_default_is_None_witness:
  "\<exists>args r. parse_args symbolic_lib [] = Returned args \<and>
     delegated (main_block symbolic_lib demo_world []) = Some r \<and>
     cmap args = None \<and> cmap r = None \<and>
     cmap (signature_defaults symbolic_lib) = Some ''gray_r''"
proof -
  from demo_default_run obtain args r
    where a: "parse_args symbolic_lib [] = Returned args"
      and b: "delegated (main_block symbolic_lib demo_world []) = Some r" by blast
  from cmap_default_is_None [OF a] a b show ?thesis by blast
qed

end
